theory Spec2Isabelle
  imports Main
begin

section \<open>Configuration (bin/interface.ts, bin/variables.ts)\<close>

text \<open>
  \<^verbatim>\<open>IClient\<close> is a region and a CIDR block; \<^verbatim>\<open>IWorker\<close> has the same two fields and
  two more, so a worker is accepted wherever a client descriptor is expected (the
  worker-to-worker wiring passes \<^verbatim>\<open>client: workers[y]\<close>).
\<close>

record IClient =
  region :: string
  cidr :: string

record IWorker = IClient +
  dataset :: string
  lustreFileSystemPath :: string

definition asClient :: "IWorker \<Rightarrow> IClient" where
  "asClient w = \<lparr>region = region w, cidr = cidr w\<rparr>"

definition client :: IClient where
  "client = \<lparr>region = ''eu-west-2'', cidr = ''10.0.0.0/16''\<rparr>"

definition workers :: "IWorker list" where
  "workers =
    [\<lparr>region = ''us-east-1'', cidr = ''10.1.0.0/16'',
      dataset = ''s3://era5-pds'', lustreFileSystemPath = ''era5-pds''\<rparr>,
     \<lparr>region = ''us-west-2'', cidr = ''10.2.0.0/16'',
      dataset = ''s3://cmip6-pds/CMIP6/ScenarioMIP/MOHC'',
      lustreFileSystemPath = ''CMIP6/ScenarioMIP/MOHC''\<rparr>]"

section \<open>Stacks, constructs and deploy-time values\<close>

text \<open>
  The program is a CDK application: running it creates stack objects, each holding
  constructs, and records build-order dependencies between them. Stack and construct
  objects are referred to by object identity in the source (\<^verbatim>\<open>Worker.tgw\<close>,
  \<^verbatim>\<open>WorkerStacks[x].vpc\<close>); here the identity of a stack object is a \<open>stack_id\<close>,
  numbered by the loop index that created it, next to the id string the source gives it.
\<close>

datatype stack_id =
    ClientRegionId
  | WorkerRegionId nat
  | WorkerRouteId nat
  | ClientRouteId nat
  | PeerId nat nat
  | PeerRouteId nat nat
  | InterRouteId nat nat
  | SyncLustreId nat

text \<open>
  Values only known at deployment are tokens: an attribute of a construct, an attribute
  of a private subnet of a Vpc, the \<^verbatim>\<open>Parameter.Value\<close> answer of a \<^verbatim>\<open>getParameter\<close>
  call for a name in a region, the \<^verbatim>\<open>AssociationDefaultRouteTableId\<close> answer of
  \<^verbatim>\<open>describeTransitGateways\<close> for a gateway in a region, or a plain string.
\<close>

datatype token =
    Attr stack_id string string
  | SubnetId stack_id string nat
  | SubnetRouteTableId stack_id string nat
  | ParameterValue string string
  | AssociationDefaultRouteTableId token string
  | Plain string
  | BucketOf string

type_synonym construct_ref = "stack_id \<times> string"

text \<open>A \<^verbatim>\<open>Vpc\<close> object handed to another stack: where it lives and how many private subnets it has.\<close>

type_synonym vpc_ref = "stack_id \<times> string \<times> nat"

definition ref :: "construct_ref \<Rightarrow> token" where
  "ref c = Attr (fst c) (snd c) ''Ref''"

definition attrTransitGatewayAttachmentId :: "construct_ref \<Rightarrow> token" where
  "attrTransitGatewayAttachmentId c = Attr (fst c) (snd c) ''TransitGatewayAttachmentId''"

definition vpcId :: "vpc_ref \<Rightarrow> token" where
  "vpcId v = Attr (fst v) (fst (snd v)) ''VpcId''"

definition privateSubnets :: "vpc_ref \<Rightarrow> nat list" where
  "privateSubnets v = [0..<snd (snd v)]"

definition subnetId :: "vpc_ref \<Rightarrow> nat \<Rightarrow> token" where
  "subnetId v i = SubnetId (fst v) (fst (snd v)) i"

definition routeTableId :: "vpc_ref \<Rightarrow> nat \<Rightarrow> token" where
  "routeTableId v i = SubnetRouteTableId (fst v) (fst (snd v)) i"

text \<open>
  The constructs of the network bootstrap and of the parameter exchange, with the
  properties the source gives them (the account, the same unresolved value everywhere,
  is left out). The data mirror, the compute pools, the search domain and the notebook
  are not embedded.
\<close>

datatype resource =
    Vpc string
  | CfnTransitGateway
  | CfnTransitGatewayAttachment "token list" token token
  | StringParameter string token
  | SSMParameterReader string string
  | CfnTransitGatewayPeeringAttachment string token token
  | AcceptTGWRequestClient token string
  | CfnRoute token string token
  | TransitGatewayRouteTable token string
  | CfnTransitGatewayRoute token string token
  | AssociateVPCWithHostedZone token token string
  | AutoScalingGroup token token

datatype logical_id =
    Named string
  | PerSubnet string nat string

record construct =
  cid :: logical_id
  res :: resource
  dependsOn :: "string list"

definition new :: "string \<Rightarrow> resource \<Rightarrow> construct" where
  "new n r = \<lparr>cid = Named n, res = r, dependsOn = []\<rparr>"

definition addDependsOn :: "construct \<Rightarrow> string \<Rightarrow> construct" where
  "addDependsOn c n = c\<lparr>dependsOn := dependsOn c @ [n]\<rparr>"

record stack =
  stackId :: stack_id
  stackName :: string
  env_region :: string
  resources :: "construct list"
  dependencies :: "stack_id list"

definition addDependency :: "stack \<Rightarrow> stack \<Rightarrow> stack" where
  "addDependency s t = s\<lparr>dependencies := dependencies s @ [stackId t]\<rparr>"

section \<open>SdkConstructs: the cross-region parameter reader and the route table lookup\<close>

text \<open>
  \<^verbatim>\<open>new SSMParameterReader(this, name, {parameterName, region, account})\<close> declares one
  \<^verbatim>\<open>getParameter\<close> call in \<open>region\<close>; \<^verbatim>\<open>getParameterValue()\<close> is its answer.
  \<^verbatim>\<open>new TransitGatewayRouteTable(this, name, {parameterName, region})\<close> declares one
  \<^verbatim>\<open>describeTransitGateways\<close> call; \<^verbatim>\<open>getParameterValue()\<close> is the default route table.
\<close>

definition getParameterValue :: "string \<Rightarrow> string \<Rightarrow> token" where
  "getParameterValue parameterName rgn = ParameterValue parameterName rgn"

definition getRouteTableValue :: "token \<Rightarrow> string \<Rightarrow> token" where
  "getRouteTableValue parameterName rgn = AssociationDefaultRouteTableId parameterName rgn"

section \<open>ClientRegion (lib/ClientConstructs/client-region-stack.ts)\<close>

definition clientTGW :: "stack_id \<Rightarrow> construct_ref" where
  "clientTGW sid = (sid, ''TGW'')"

definition clientVpc :: "(string \<Rightarrow> nat) \<Rightarrow> stack_id \<Rightarrow> string \<Rightarrow> vpc_ref" where
  "clientVpc azs sid rgn = (sid, ''Scheduler VPC'', azs rgn)"

definition ClientRegion ::
  "(string \<Rightarrow> nat) \<Rightarrow> stack_id \<Rightarrow> string \<Rightarrow> string \<Rightarrow> string \<Rightarrow> IWorker list \<Rightarrow> stack" where
  "ClientRegion azs sid name rgn clientCidr ws =
    (let vpc = clientVpc azs sid rgn;
         tgw = clientTGW sid
     in \<lparr>stackId = sid, stackName = name, env_region = rgn,
         resources =
           [new ''Scheduler VPC'' (Vpc clientCidr),
            new ''TGW'' CfnTransitGateway,
            new ''TGW Param'' (StringParameter (''tgw-param-'' @ rgn) (ref tgw)),
            addDependsOn
              (new ''tgw-attachment''
                (CfnTransitGatewayAttachment (map (subnetId vpc) (privateSubnets vpc))
                  (ref tgw) (vpcId vpc)))
              ''TGW'']
           @ concat (map (\<lambda>worker.
               map (\<lambda>i.
                 \<lparr>cid = PerSubnet ''Subnet to TGW - '' i ('' - '' @ region worker),
                  res = CfnRoute (routeTableId vpc i) (cidr worker) (ref tgw),
                  dependsOn = [''tgw-attachment'']\<rparr>)
                 (privateSubnets vpc)) ws)
           @ [new ''PrivateNP Param''
                (StringParameter (''privatenp-hostedid-param-'' @ rgn)
                  (Attr sid ''local-dask'' ''NamespaceHostedZoneId'')),
              new ''OpenSearch HostName''
                (StringParameter (''client-opensearch-domain-'' @ rgn)
                  (Attr sid ''OpenSearch Domain'' ''DomainEndpoint'')),
              new ''OpenSearch ARN''
                (StringParameter (''client-opensearch-arn-'' @ rgn)
                  (Attr sid ''OpenSearch Domain'' ''Arn''))],
         dependencies = []\<rparr>)"

section \<open>WorkerRegion (lib/WorkerConstructs/worker-region-stack.ts)\<close>

definition workerTgw :: "stack_id \<Rightarrow> construct_ref" where
  "workerTgw sid = (sid, ''TGW'')"

definition attachmentID :: "stack_id \<Rightarrow> construct_ref" where
  "attachmentID sid = (sid, ''Peering Connection'')"

definition workerVpc :: "(string \<Rightarrow> nat) \<Rightarrow> stack_id \<Rightarrow> string \<Rightarrow> vpc_ref" where
  "workerVpc azs sid rgn = (sid, ''Worker VPC'', azs rgn)"

definition WorkerRegion ::
  "(string \<Rightarrow> nat) \<Rightarrow> stack_id \<Rightarrow> string \<Rightarrow> string \<Rightarrow> IClient \<Rightarrow> IWorker \<Rightarrow> stack" where
  "WorkerRegion azs sid name rgn c worker =
    (let tgw = workerTgw sid;
         peerTransitGatewayId = getParameterValue (''tgw-param-'' @ region c) (region c);
         att = attachmentID sid;
         vpc = workerVpc azs sid rgn;
         HostedZoneId =
           getParameterValue (''privatenp-hostedid-param-'' @ region c) (region c)
     in \<lparr>stackId = sid, stackName = name, env_region = rgn,
         resources =
           [new ''TGW'' CfnTransitGateway,
            new (''TGW Param - '' @ rgn) (StringParameter (''tgw-param-'' @ rgn) (ref tgw)),
            new ''TGW Param'' (SSMParameterReader (''tgw-param-'' @ region c) (region c)),
            addDependsOn
              (new ''Peering Connection''
                (CfnTransitGatewayPeeringAttachment (region c) peerTransitGatewayId (ref tgw)))
              ''TGW'',
            new ''Accept Request''
              (AcceptTGWRequestClient (attrTransitGatewayAttachmentId att) (region c)),
            new ''Worker VPC'' (Vpc (cidr worker)),
            addDependsOn
              (new ''tgw-attachment''
                (CfnTransitGatewayAttachment (map (subnetId vpc) (privateSubnets vpc))
                  (ref tgw) (vpcId vpc)))
              ''TGW'',
            new ''TGW Attach Param''
              (StringParameter (''tgw-attachmentid-'' @ rgn)
                (attrTransitGatewayAttachmentId att))]
           @ map (\<lambda>i.
               \<lparr>cid = PerSubnet ''Subnet to TGW - '' i '''',
                res = CfnRoute (routeTableId vpc i) (cidr c) (ref tgw),
                dependsOn = [''Peering Connection'']\<rparr>)
               (privateSubnets vpc)
           @ [new ''PrivateNP Param''
                (SSMParameterReader (''privatenp-hostedid-param-'' @ region c) (region c)),
              new ''AssociateVPCWithHostedZone''
                (AssociateVPCWithHostedZone HostedZoneId (vpcId vpc) rgn)],
         dependencies = []\<rparr>)"

section \<open>WorkerRegionTransitGatewayRoute (lib/WorkerConstructs/worker-region-tgw-route.ts)\<close>

definition WorkerRegionTransitGatewayRoute ::
  "stack_id \<Rightarrow> string \<Rightarrow> string \<Rightarrow> IClient \<Rightarrow> construct_ref \<Rightarrow> construct_ref \<Rightarrow> stack" where
  "WorkerRegionTransitGatewayRoute sid name rgn c tgw attachmentId =
    (let transitGatewayRouteTableId = getRouteTableValue (ref tgw) rgn
     in \<lparr>stackId = sid, stackName = name, env_region = rgn,
         resources =
           [new ''Transit Gateway'' (TransitGatewayRouteTable (ref tgw) rgn),
            new ''TGW Route''
              (CfnTransitGatewayRoute transitGatewayRouteTableId (cidr c)
                (attrTransitGatewayAttachmentId attachmentId))],
         dependencies = []\<rparr>)"

section \<open>ClientToWorkerTransitGatewayRoute (lib/ClientConstructs/client-region-tgw-route.ts)\<close>

definition ClientToWorkerTransitGatewayRoute ::
  "stack_id \<Rightarrow> string \<Rightarrow> string \<Rightarrow> construct_ref \<Rightarrow> IWorker \<Rightarrow> stack" where
  "ClientToWorkerTransitGatewayRoute sid name rgn clientTgw worker =
    (let transitGatewayRouteTableId = getRouteTableValue (ref clientTgw) rgn;
         transitGatewayAttachmentId =
           getParameterValue (''tgw-attachmentid-'' @ region worker) (region worker)
     in \<lparr>stackId = sid, stackName = name, env_region = rgn,
         resources =
           [new ''Transit Gateway'' (TransitGatewayRouteTable (ref clientTgw) rgn),
            new (''Transit Attachment ID - '' @ region worker)
              (SSMParameterReader (''tgw-attachmentid-'' @ region worker) (region worker)),
            new (''TGW Route - '' @ region worker)
              (CfnTransitGatewayRoute transitGatewayRouteTableId (cidr worker)
                transitGatewayAttachmentId)],
         dependencies = []\<rparr>)"

section \<open>WorkerToWorkerTGW (lib/WorkerConstructs/worker-to-worker-tgw.ts)\<close>

definition WorkerToWorkerTGW ::
  "stack_id \<Rightarrow> string \<Rightarrow> string \<Rightarrow> IWorker \<Rightarrow> vpc_ref \<Rightarrow> stack" where
  "WorkerToWorkerTGW sid name rgn peerWorker vpc =
    (let peerTransitGatewayId =
           getParameterValue (''tgw-param-'' @ region peerWorker) (region peerWorker);
         transitGatewayId = getParameterValue (''tgw-param-'' @ rgn) rgn;
         att = attachmentID sid
     in \<lparr>stackId = sid, stackName = name, env_region = rgn,
         resources =
           [new (''TGW Param - '' @ region peerWorker)
              (SSMParameterReader (''tgw-param-'' @ region peerWorker) (region peerWorker)),
            new (''TGW Param - '' @ rgn) (SSMParameterReader (''tgw-param-'' @ rgn) rgn),
            new ''Peering Connection''
              (CfnTransitGatewayPeeringAttachment (region peerWorker) peerTransitGatewayId
                transitGatewayId),
            new (''Peering ID - '' @ region peerWorker)
              (StringParameter (''tgw-attachmentid-'' @ rgn @ ''-'' @ region peerWorker)
                (attrTransitGatewayAttachmentId att)),
            new ''Accept Request''
              (AcceptTGWRequestClient (attrTransitGatewayAttachmentId att) (region peerWorker))]
           @ map (\<lambda>i.
               \<lparr>cid = PerSubnet ''Subnet to TGW - '' i '''',
                res = CfnRoute (routeTableId vpc i) (cidr peerWorker) transitGatewayId,
                dependsOn = [''Peering Connection'']\<rparr>)
               (privateSubnets vpc),
         dependencies = []\<rparr>)"

section \<open>InterRegionTransitGatewayRoute (lib/WorkerConstructs/interregion-worker-tgw-route.ts)\<close>

definition InterRegionTransitGatewayRoute ::
  "stack_id \<Rightarrow> string \<Rightarrow> string \<Rightarrow> IWorker \<Rightarrow> construct_ref \<Rightarrow> vpc_ref \<Rightarrow> stack" where
  "InterRegionTransitGatewayRoute sid name rgn peerWorker tgw vpc =
    (let transitGatewayRouteTableId = getRouteTableValue (ref tgw) rgn;
         transitGatewayAttachmentId =
           getParameterValue (''tgw-attachmentid-'' @ region peerWorker @ ''-'' @ rgn)
             (region peerWorker)
     in \<lparr>stackId = sid, stackName = name, env_region = rgn,
         resources =
           [new ''Transit Gateway'' (TransitGatewayRouteTable (ref tgw) rgn),
            new (''Transit Attachment ID - '' @ rgn)
              (SSMParameterReader (''tgw-attachmentid-'' @ region peerWorker @ ''-'' @ rgn)
                (region peerWorker)),
            new ''TGW Route''
              (CfnTransitGatewayRoute transitGatewayRouteTableId (cidr peerWorker)
                transitGatewayAttachmentId)]
           @ map (\<lambda>i.
               \<lparr>cid = PerSubnet ''Subnet to TGW - '' i '''',
                res = CfnRoute (routeTableId vpc i) (cidr peerWorker) (ref tgw),
                dependsOn = []\<rparr>)
               (privateSubnets vpc),
         dependencies = []\<rparr>)"

section \<open>SyncLustreToOpenSearch (lib/WorkerConstructs/sync-lustre-to-opensearch.ts)\<close>

text \<open>
  Of this stack the parameter reader and the two parameters are embedded, and the
  auto-scaling group as far as it refers to the worker stack: it is placed in the worker's
  network and mounts the worker's file system.
\<close>

definition SyncLustreToOpenSearch ::
  "stack_id \<Rightarrow> string \<Rightarrow> string \<Rightarrow> IClient \<Rightarrow> IWorker \<Rightarrow> vpc_ref \<Rightarrow> construct_ref \<Rightarrow> stack" where
  "SyncLustreToOpenSearch sid name rgn c worker vpc lustre =
    \<lparr>stackId = sid, stackName = name, env_region = rgn,
     resources =
       [new ''AutoScaling Group''
          (AutoScalingGroup (vpcId vpc) (Attr (fst lustre) (snd lustre) ''DnsName'')),
        new ''OpenSearchARN''
          (SSMParameterReader (''client-opensearch-arn-'' @ region c) (region c)),
        new ''ClientRegionForEC2''
          (StringParameter (''client-region-for-dask-worker-'' @ rgn) (Plain (region c))),
        new ''WorkerDataProjectForEC2''
          (StringParameter (''worker-region-data-bucket-for-dask-worker-'' @ rgn)
            (BucketOf (dataset worker)))],
     dependencies = []\<rparr>"

section \<open>The application (bin/cross-region-dask-aws.ts)\<close>

definition clientStack :: "(string \<Rightarrow> nat) \<Rightarrow> IClient \<Rightarrow> IWorker list \<Rightarrow> stack" where
  "clientStack azs c ws =
     ClientRegion azs ClientRegionId ''Client-Region'' (region c) (cidr c) ws"

text \<open>\<^verbatim>\<open>WorkerStacks[i]\<close>: the worker stack after \<^verbatim>\<open>Worker.addDependency(clientStack)\<close>.\<close>

definition WorkerStacks :: "(string \<Rightarrow> nat) \<Rightarrow> IClient \<Rightarrow> IWorker list \<Rightarrow> nat \<Rightarrow> stack" where
  "WorkerStacks azs c ws i =
     addDependency
       (WorkerRegion azs (WorkerRegionId i) (''Worker-Region-'' @ region (ws ! i))
          (region (ws ! i)) c (ws ! i))
       (clientStack azs c ws)"

definition workerVpcOf :: "(string \<Rightarrow> nat) \<Rightarrow> IWorker list \<Rightarrow> nat \<Rightarrow> vpc_ref" where
  "workerVpcOf azs ws i = workerVpc azs (WorkerRegionId i) (region (ws ! i))"

text \<open>
  The two route stacks of the first loop for the worker at index \<open>i\<close>, each after its
  \<^verbatim>\<open>.addDependency(Worker)\<close>, and the body of that loop.
\<close>

definition workerRoute :: "(string \<Rightarrow> nat) \<Rightarrow> IClient \<Rightarrow> IWorker list \<Rightarrow> nat \<Rightarrow> stack" where
  "workerRoute azs c ws i =
     addDependency
       (WorkerRegionTransitGatewayRoute (WorkerRouteId i)
          (''Worker-Region-TGW-Route-'' @ region (ws ! i)) (region (ws ! i)) c
          (workerTgw (stackId (WorkerStacks azs c ws i)))
          (attachmentID (stackId (WorkerStacks azs c ws i))))
       (WorkerStacks azs c ws i)"

definition clientRoute :: "(string \<Rightarrow> nat) \<Rightarrow> IClient \<Rightarrow> IWorker list \<Rightarrow> nat \<Rightarrow> stack" where
  "clientRoute azs c ws i =
     addDependency
       (ClientToWorkerTransitGatewayRoute (ClientRouteId i)
          (''Client-Region-TGW-Route-'' @ region (ws ! i)) (region c)
          (clientTGW (stackId (clientStack azs c ws))) (ws ! i))
       (WorkerStacks azs c ws i)"

definition workerLoop :: "(string \<Rightarrow> nat) \<Rightarrow> IClient \<Rightarrow> IWorker list \<Rightarrow> nat \<Rightarrow> stack list" where
  "workerLoop azs c ws i =
     [WorkerStacks azs c ws i, workerRoute azs c ws i, clientRoute azs c ws i]"

text \<open>
  The three stacks of the inner loop of the worker-to-worker wiring for \<open>x\<close> and \<open>y\<close>: the
  link stack, the route of \<open>x\<close> toward \<open>y\<close> and the inverse route, the last two after
  \<^verbatim>\<open>.addDependency(W2WTransitGateway)\<close>.
\<close>

definition W2WTransitGateway :: "(string \<Rightarrow> nat) \<Rightarrow> IWorker list \<Rightarrow> nat \<Rightarrow> nat \<Rightarrow> stack" where
  "W2WTransitGateway azs ws x y =
     WorkerToWorkerTGW (PeerId x y)
       (''TGW-Peer-Region-'' @ region (ws ! x) @ ''-to-'' @ region (ws ! y))
       (region (ws ! x)) (ws ! y) (workerVpcOf azs ws x)"

definition WRTGWRoute :: "(string \<Rightarrow> nat) \<Rightarrow> IWorker list \<Rightarrow> nat \<Rightarrow> nat \<Rightarrow> stack" where
  "WRTGWRoute azs ws x y =
     addDependency
       (WorkerRegionTransitGatewayRoute (PeerRouteId x y)
          (''Worker-Region-TGW-Route-'' @ region (ws ! x) @ ''-to-'' @ region (ws ! y))
          (region (ws ! x)) (asClient (ws ! y))
          (workerTgw (WorkerRegionId x))
          (attachmentID (stackId (W2WTransitGateway azs ws x y))))
       (W2WTransitGateway azs ws x y)"

definition interRoute :: "(string \<Rightarrow> nat) \<Rightarrow> IWorker list \<Rightarrow> nat \<Rightarrow> nat \<Rightarrow> stack" where
  "interRoute azs ws x y =
     addDependency
       (InterRegionTransitGatewayRoute (InterRouteId y x)
          (''Inter-Region-TGW-Route-'' @ region (ws ! y) @ ''-to-'' @ region (ws ! x))
          (region (ws ! y)) (ws ! x)
          (workerTgw (WorkerRegionId y)) (workerVpcOf azs ws y))
       (W2WTransitGateway azs ws x y)"

definition peerLoop :: "(string \<Rightarrow> nat) \<Rightarrow> IWorker list \<Rightarrow> nat \<Rightarrow> nat \<Rightarrow> stack list" where
  "peerLoop azs ws x y =
     [W2WTransitGateway azs ws x y, WRTGWRoute azs ws x y, interRoute azs ws x y]"

text \<open>The body of the outer loop: the links of \<open>x\<close> to every later worker, then the sync stack.\<close>

definition lustreToOS :: "(string \<Rightarrow> nat) \<Rightarrow> IClient \<Rightarrow> IWorker list \<Rightarrow> nat \<Rightarrow> stack" where
  "lustreToOS azs c ws x =
     SyncLustreToOpenSearch (SyncLustreId x)
       (''ZyncLustreToOpenSearch-'' @ region (ws ! x)) (region (ws ! x)) c (ws ! x)
       (workerVpcOf azs ws x) (WorkerRegionId x, ''Lustre File System'')"

definition wiringLoop :: "(string \<Rightarrow> nat) \<Rightarrow> IClient \<Rightarrow> IWorker list \<Rightarrow> nat \<Rightarrow> stack list" where
  "wiringLoop azs c ws x =
     concat (map (peerLoop azs ws x) [Suc x..<length ws]) @ [lustreToOS azs c ws x]"

text \<open>
  The stacks of the application, in the order the program creates them. \<open>azs\<close> gives the
  number of private subnets the \<^verbatim>\<open>Vpc\<close> construct lays out in a region.
\<close>

definition app :: "(string \<Rightarrow> nat) \<Rightarrow> IClient \<Rightarrow> IWorker list \<Rightarrow> stack list" where
  "app azs c ws =
     clientStack azs c ws
     # concat (map (workerLoop azs c ws) [0..<length ws])
     @ concat (map (wiringLoop azs c ws) [0..<length ws])"

section \<open>What the application declares\<close>

text \<open>
  The claims are about the links, gateways, route entries and published parameters that
  the stacks declare. Each is read off the constructs of a stack by a function of the
  stack's identity, its region and the construct, and gathered over the stacks in order.
\<close>

definition pick :: "(stack_id \<Rightarrow> string \<Rightarrow> construct \<Rightarrow> 'a list) \<Rightarrow> stack \<Rightarrow> 'a list" where
  "pick f s = concat (map (f (stackId s) (env_region s)) (resources s))"

definition collect :: "(stack \<Rightarrow> 'a list) \<Rightarrow> stack list \<Rightarrow> 'a list" where
  "collect f ss = concat (map f ss)"

subsection \<open>Peering links\<close>

text \<open>
  A peering attachment is created in the region of its stack (the initiator) and points
  at the gateway \<open>targetGateway\<close> of \<open>target\<close>. \<open>acceptedIn\<close> lists the regions of the accept
  actions that name this attachment.
\<close>

record link =
  linkStack :: stack_id
  initiator :: string
  target :: string
  targetGateway :: token
  localGateway :: token
  attachment :: token
  after :: "string list"
  acceptedIn :: "string list"

fun acceptRegion :: "token \<Rightarrow> construct \<Rightarrow> string list" where
  "acceptRegion a c =
     (case res c of
        AcceptTGWRequestClient a' r \<Rightarrow> (if a' = a then [r] else [])
      | _ \<Rightarrow> [])"

fun linkOf :: "construct list \<Rightarrow> stack_id \<Rightarrow> string \<Rightarrow> construct \<Rightarrow> link list" where
  "linkOf cs sid rgn c =
     (case (cid c, res c) of
        (Named n, CfnTransitGatewayPeeringAttachment peerRegion peerTransitGatewayId tgw) \<Rightarrow>
          [\<lparr>linkStack = sid, initiator = rgn, target = peerRegion,
            targetGateway = peerTransitGatewayId, localGateway = tgw,
            attachment = attrTransitGatewayAttachmentId (sid, n),
            after = dependsOn c,
            acceptedIn =
              concat (map (acceptRegion (attrTransitGatewayAttachmentId (sid, n))) cs)\<rparr>]
      | _ \<Rightarrow> [])"

definition stackLinks :: "stack \<Rightarrow> link list" where
  "stackLinks s = pick (linkOf (resources s)) s"

definition links :: "stack list \<Rightarrow> link list" where
  "links = collect stackLinks"

definition endpoints :: "link \<Rightarrow> string set" where
  "endpoints l = {initiator l, target l}"

definition participants :: "IClient \<Rightarrow> IWorker list \<Rightarrow> string list" where
  "participants c ws = region c # map region ws"

definition blocks :: "IClient \<Rightarrow> IWorker list \<Rightarrow> string list" where
  "blocks c ws = cidr c # map cidr ws"

subsection \<open>Gateways and their network attachments\<close>

text \<open>
  A gateway is created in the region of its stack. \<open>attached\<close> lists the networks that the
  (non-peering) attachments of the stack attach to it, \<open>publishedAs\<close> the region and name of
  the parameters of the stack that hold its reference.
\<close>

record gateway =
  gwStack :: stack_id
  gwRegion :: string
  gwRef :: token
  attached :: "token list"
  publishedAs :: "(string \<times> string) list"

fun attachedTo :: "token \<Rightarrow> construct \<Rightarrow> token list" where
  "attachedTo g c =
     (case res c of
        CfnTransitGatewayAttachment subnetIds transitGatewayId vpc \<Rightarrow>
          (if transitGatewayId = g then [vpc] else [])
      | _ \<Rightarrow> [])"

fun publishes :: "string \<Rightarrow> token \<Rightarrow> construct \<Rightarrow> (string \<times> string) list" where
  "publishes rgn g c =
     (case res c of
        StringParameter parameterName stringValue \<Rightarrow>
          (if stringValue = g then [(rgn, parameterName)] else [])
      | _ \<Rightarrow> [])"

fun gatewayOf :: "construct list \<Rightarrow> stack_id \<Rightarrow> string \<Rightarrow> construct \<Rightarrow> gateway list" where
  "gatewayOf cs sid rgn c =
     (case (cid c, res c) of
        (Named n, CfnTransitGateway) \<Rightarrow>
          [\<lparr>gwStack = sid, gwRegion = rgn, gwRef = ref (sid, n),
            attached = concat (map (attachedTo (ref (sid, n))) cs),
            publishedAs = concat (map (publishes rgn (ref (sid, n))) cs)\<rparr>]
      | _ \<Rightarrow> [])"

definition stackGateways :: "stack \<Rightarrow> gateway list" where
  "stackGateways s = pick (gatewayOf (resources s)) s"


text \<open>A (non-peering) attachment of a network to a gateway: its stack, the gateway, the network.\<close>

fun vpcAttachmentOf :: "stack_id \<Rightarrow> string \<Rightarrow> construct \<Rightarrow> (stack_id \<times> token \<times> token) list" where
  "vpcAttachmentOf sid rgn c =
     (case res c of
        CfnTransitGatewayAttachment subnetIds transitGatewayId vpc \<Rightarrow> [(sid, transitGatewayId, vpc)]
      | _ \<Rightarrow> [])"


text \<open>The networks: the stack, the construct and the address block of every \<^verbatim>\<open>Vpc\<close>.\<close>

fun networkOf :: "stack_id \<Rightarrow> string \<Rightarrow> construct \<Rightarrow> (token \<times> string) list" where
  "networkOf sid rgn c =
     (case (cid c, res c) of
        (Named n, Vpc block) \<Rightarrow> [(Attr sid n ''VpcId'', block)]
      | _ \<Rightarrow> [])"


subsection \<open>The parameter exchange\<close>

text \<open>
  A \<^verbatim>\<open>StringParameter\<close> is stored in the region of its stack: a published parameter is the
  region and the name (the key) with the value. A reader names the stack that reads and
  the region and name it asks for.
\<close>

fun publishedOf :: "stack_id \<Rightarrow> string \<Rightarrow> construct \<Rightarrow> ((string \<times> string) \<times> token) list" where
  "publishedOf sid rgn c =
     (case res c of
        StringParameter parameterName stringValue \<Rightarrow> [((rgn, parameterName), stringValue)]
      | _ \<Rightarrow> [])"

definition stackPublished :: "stack \<Rightarrow> ((string \<times> string) \<times> token) list" where
  "stackPublished = pick publishedOf"

definition published :: "stack list \<Rightarrow> ((string \<times> string) \<times> token) list" where
  "published = collect stackPublished"

fun readerOf :: "stack_id \<Rightarrow> string \<Rightarrow> construct \<Rightarrow> (stack_id \<times> string \<times> string) list" where
  "readerOf sid rgn c =
     (case res c of
        SSMParameterReader parameterName r \<Rightarrow> [(sid, r, parameterName)]
      | _ \<Rightarrow> [])"


text \<open>
  What a token stands for once every stack is deployed: the answer of a \<^verbatim>\<open>getParameter\<close>
  call is the value published under that name in that region, when there is one.
\<close>

fun resolve :: "((string \<times> string) \<times> token) list \<Rightarrow> token \<Rightarrow> token" where
  "resolve ps (ParameterValue parameterName rgn) =
     (case map_of ps (rgn, parameterName) of Some v \<Rightarrow> v | None \<Rightarrow> ParameterValue parameterName rgn)"
| "resolve ps t = t"

subsection \<open>Route entries\<close>

datatype level = SubnetLevel | GatewayLevel

record route =
  routeStack :: stack_id
  level :: level
  routeTable :: token
  destination :: string
  via :: token
  waitsFor :: "string list"

fun routeOf :: "stack_id \<Rightarrow> string \<Rightarrow> construct \<Rightarrow> route list" where
  "routeOf sid rgn c =
     (case res c of
        CfnRoute rt destinationCidrBlock transitGatewayId \<Rightarrow>
          [\<lparr>routeStack = sid, level = SubnetLevel, routeTable = rt,
            destination = destinationCidrBlock, via = transitGatewayId,
            waitsFor = dependsOn c\<rparr>]
      | CfnTransitGatewayRoute rt destinationCidrBlock transitGatewayAttachmentId \<Rightarrow>
          [\<lparr>routeStack = sid, level = GatewayLevel, routeTable = rt,
            destination = destinationCidrBlock, via = transitGatewayAttachmentId,
            waitsFor = dependsOn c\<rparr>]
      | _ \<Rightarrow> [])"

definition stackRoutes :: "stack \<Rightarrow> route list" where
  "stackRoutes = pick routeOf"

definition routes :: "stack list \<Rightarrow> route list" where
  "routes = collect stackRoutes"

subsection \<open>Build order\<close>

text \<open>
  A stack is deployed as a whole, after every stack it depends on. It depends on the
  stacks named by \<^verbatim>\<open>addDependency\<close> and on the stacks whose constructs its own constructs
  refer to (a reference across stacks makes the referring stack depend on the other one).
  The answer of a parameter reader or of a route table lookup is a value of the stack's
  own custom resource and refers to no other stack.
\<close>

fun tokenStack :: "token \<Rightarrow> stack_id list" where
  "tokenStack (Attr s n a) = [s]"
| "tokenStack (SubnetId s v i) = [s]"
| "tokenStack (SubnetRouteTableId s v i) = [s]"
| "tokenStack t = []"

fun resourceTokens :: "resource \<Rightarrow> token list" where
  "resourceTokens (Vpc block) = []"
| "resourceTokens CfnTransitGateway = []"
| "resourceTokens (CfnTransitGatewayAttachment subnetIds transitGatewayId vpc) =
     subnetIds @ [transitGatewayId, vpc]"
| "resourceTokens (StringParameter parameterName stringValue) = [stringValue]"
| "resourceTokens (SSMParameterReader parameterName rgn) = []"
| "resourceTokens (CfnTransitGatewayPeeringAttachment peerRegion peerTransitGatewayId tgw) =
     [peerTransitGatewayId, tgw]"
| "resourceTokens (AcceptTGWRequestClient attachmentId rgn) = [attachmentId]"
| "resourceTokens (CfnRoute rt destinationCidrBlock transitGatewayId) = [rt, transitGatewayId]"
| "resourceTokens (TransitGatewayRouteTable parameterName rgn) = [parameterName]"
| "resourceTokens (CfnTransitGatewayRoute rt destinationCidrBlock transitGatewayAttachmentId) =
     [rt, transitGatewayAttachmentId]"
| "resourceTokens (AssociateVPCWithHostedZone hostedZoneId vpc rgn) = [hostedZoneId, vpc]"
| "resourceTokens (AutoScalingGroup vpc lustre) = [vpc, lustre]"

fun referenceOf :: "stack_id \<Rightarrow> string \<Rightarrow> construct \<Rightarrow> stack_id list" where
  "referenceOf sid rgn c =
     filter (\<lambda>s. s \<noteq> sid) (concat (map tokenStack (resourceTokens (res c))))"

definition references :: "stack \<Rightarrow> stack_id list" where
  "references = pick referenceOf"

definition needs :: "stack \<Rightarrow> stack_id list" where
  "needs s = dependencies s @ references s"

text \<open>\<open>precedes ord a b\<close>: in the order \<open>ord\<close>, \<open>a\<close> comes before \<open>b\<close>.\<close>

fun precedes :: "'a list \<Rightarrow> 'a \<Rightarrow> 'a \<Rightarrow> bool" where
  "precedes [] a b = False"
| "precedes (x # xs) a b = (if x = a then b \<in> set xs else precedes xs a b)"

text \<open>
  A deployment order of the stacks: every stack once, each after all the stacks it needs.
\<close>

definition valid_order :: "stack list \<Rightarrow> stack_id list \<Rightarrow> bool" where
  "valid_order ss ord =
     (distinct ord \<and> set ord = set (map stackId ss)
      \<and> list_all (\<lambda>s. list_all (\<lambda>d. precedes ord d (stackId s)) (needs s)) ss)"

subsection \<open>The links and route entries by name\<close>

text \<open>
  The link a worker stack declares toward the client, the link a worker-to-worker stack
  declares, and the two shapes of route entry, written out so that the statements below
  can name them.
\<close>

definition clientLink :: "IClient \<Rightarrow> IWorker list \<Rightarrow> nat \<Rightarrow> link" where
  "clientLink c ws i =
     \<lparr>linkStack = WorkerRegionId i, initiator = region (ws ! i), target = region c,
      targetGateway = ParameterValue (''tgw-param-'' @ region c) (region c),
      localGateway = Attr (WorkerRegionId i) ''TGW'' ''Ref'',
      attachment = Attr (WorkerRegionId i) ''Peering Connection'' ''TransitGatewayAttachmentId'',
      after = [''TGW''],
      acceptedIn = [region c]\<rparr>"

definition workerLink :: "IWorker list \<Rightarrow> nat \<Rightarrow> nat \<Rightarrow> link" where
  "workerLink ws x y =
     \<lparr>linkStack = PeerId x y, initiator = region (ws ! x), target = region (ws ! y),
      targetGateway = ParameterValue (''tgw-param-'' @ region (ws ! y)) (region (ws ! y)),
      localGateway = ParameterValue (''tgw-param-'' @ region (ws ! x)) (region (ws ! x)),
      attachment = Attr (PeerId x y) ''Peering Connection'' ''TransitGatewayAttachmentId'',
      after = [],
      acceptedIn = [region (ws ! y)]\<rparr>"

definition clientGateway :: "IClient \<Rightarrow> gateway" where
  "clientGateway c =
     \<lparr>gwStack = ClientRegionId, gwRegion = region c, gwRef = Attr ClientRegionId ''TGW'' ''Ref'',
      attached = [Attr ClientRegionId ''Scheduler VPC'' ''VpcId''],
      publishedAs = [(region c, ''tgw-param-'' @ region c)]\<rparr>"

definition workerGateway :: "IWorker list \<Rightarrow> nat \<Rightarrow> gateway" where
  "workerGateway ws i =
     \<lparr>gwStack = WorkerRegionId i, gwRegion = region (ws ! i),
      gwRef = Attr (WorkerRegionId i) ''TGW'' ''Ref'',
      attached = [Attr (WorkerRegionId i) ''Worker VPC'' ''VpcId''],
      publishedAs = [(region (ws ! i), ''tgw-param-'' @ region (ws ! i))]\<rparr>"

definition subnetRoute ::
  "stack_id \<Rightarrow> stack_id \<Rightarrow> string \<Rightarrow> string \<Rightarrow> token \<Rightarrow> string list \<Rightarrow> nat \<Rightarrow> route" where
  "subnetRoute sid owner v d t w k =
     \<lparr>routeStack = sid, level = SubnetLevel, routeTable = SubnetRouteTableId owner v k,
      destination = d, via = t, waitsFor = w\<rparr>"

definition gatewayRoute :: "stack_id \<Rightarrow> stack_id \<Rightarrow> string \<Rightarrow> string \<Rightarrow> token \<Rightarrow> route" where
  "gatewayRoute sid owner r d a =
     \<lparr>routeStack = sid, level = GatewayLevel,
      routeTable = AssociationDefaultRouteTableId (Attr owner ''TGW'' ''Ref'') r,
      destination = d, via = a, waitsFor = []\<rparr>"

subsection \<open>The keys of the parameter exchange by name\<close>

text \<open>
  The region and name of every \<^verbatim>\<open>StringParameter\<close>: of the client stack, of the worker
  stack at index \<open>i\<close>, and of the wiring of index \<open>x\<close> (its link stacks toward the later
  workers and its sync stack).
\<close>

definition workerKeys :: "IWorker list \<Rightarrow> nat \<Rightarrow> (string \<times> string) list" where
  "workerKeys ws i =
     [(region (ws ! i), ''tgw-param-'' @ region (ws ! i)),
      (region (ws ! i), ''tgw-attachmentid-'' @ region (ws ! i))]"

definition wiringKeys :: "IWorker list \<Rightarrow> nat \<Rightarrow> (string \<times> string) list" where
  "wiringKeys ws x =
     map (\<lambda>y. (region (ws ! x), ''tgw-attachmentid-'' @ region (ws ! x) @ ''-'' @ region (ws ! y)))
       [Suc x..<length ws]
     @ [(region (ws ! x), ''client-region-for-dask-worker-'' @ region (ws ! x)),
        (region (ws ! x), ''worker-region-data-bucket-for-dask-worker-'' @ region (ws ! x))]"

definition clientKeys :: "IClient \<Rightarrow> (string \<times> string) list" where
  "clientKeys c =
     [(region c, ''tgw-param-'' @ region c),
      (region c, ''privatenp-hostedid-param-'' @ region c),
      (region c, ''client-opensearch-domain-'' @ region c),
      (region c, ''client-opensearch-arn-'' @ region c)]"

text \<open>
  Three workers whose region identifiers are pairwise distinct, the third being the first
  two joined by a hyphen.
\<close>

definition splitWorkers :: "IWorker list" where
  "splitWorkers =
    [\<lparr>region = ''us'', cidr = ''10.1.0.0/16'', dataset = ''s3://era5-pds'',
      lustreFileSystemPath = ''era5-pds''\<rparr>,
     \<lparr>region = ''east-1'', cidr = ''10.2.0.0/16'', dataset = ''s3://era5-pds'',
      lustreFileSystemPath = ''era5-pds''\<rparr>,
     \<lparr>region = ''us-east-1'', cidr = ''10.3.0.0/16'', dataset = ''s3://era5-pds'',
      lustreFileSystemPath = ''era5-pds''\<rparr>]"

subsection \<open>Route entries by route table and destination\<close>

text \<open>
  A route entry is keyed by its route table and destination block. The keys are listed by
  the stacks they come from: the client stack, the three stacks of the worker at index
  \<open>i\<close>, and the three stacks of the pair \<open>x\<close>, \<open>y\<close>.
\<close>

definition routeKey :: "route \<Rightarrow> token \<times> string" where
  "routeKey r = (routeTable r, destination r)"

definition clientRouteKeys :: "(string \<Rightarrow> nat) \<Rightarrow> IClient \<Rightarrow> IWorker list \<Rightarrow> (token \<times> string) list" where
  "clientRouteKeys azs c ws =
     concat (map (\<lambda>i. map (\<lambda>k. (SubnetRouteTableId ClientRegionId ''Scheduler VPC'' k, cidr (ws ! i)))
        [0..<azs (region c)]) [0..<length ws])"

definition workerRouteKeys :: "(string \<Rightarrow> nat) \<Rightarrow> IClient \<Rightarrow> IWorker list \<Rightarrow> nat \<Rightarrow> (token \<times> string) list" where
  "workerRouteKeys azs c ws i =
     map (\<lambda>k. (SubnetRouteTableId (WorkerRegionId i) ''Worker VPC'' k, cidr c))
       [0..<azs (region (ws ! i))]
     @ [(AssociationDefaultRouteTableId (Attr (WorkerRegionId i) ''TGW'' ''Ref'') (region (ws ! i)), cidr c),
        (AssociationDefaultRouteTableId (Attr ClientRegionId ''TGW'' ''Ref'') (region c), cidr (ws ! i))]"

definition peerRouteKeys :: "(string \<Rightarrow> nat) \<Rightarrow> IWorker list \<Rightarrow> nat \<Rightarrow> nat \<Rightarrow> (token \<times> string) list" where
  "peerRouteKeys azs ws x y =
     map (\<lambda>k. (SubnetRouteTableId (WorkerRegionId x) ''Worker VPC'' k, cidr (ws ! y)))
       [0..<azs (region (ws ! x))]
     @ [(AssociationDefaultRouteTableId (Attr (WorkerRegionId x) ''TGW'' ''Ref'') (region (ws ! x)), cidr (ws ! y)),
        (AssociationDefaultRouteTableId (Attr (WorkerRegionId y) ''TGW'' ''Ref'') (region (ws ! y)), cidr (ws ! x))]
     @ map (\<lambda>k. (SubnetRouteTableId (WorkerRegionId y) ''Worker VPC'' k, cidr (ws ! x)))
       [0..<azs (region (ws ! y))]"

text \<open>
  The stack whose network or gateway a route table belongs to, and whether the table is a
  subnet's.
\<close>

fun tableOwner :: "token \<Rightarrow> stack_id option" where
  "tableOwner (SubnetRouteTableId s v k) = Some s"
| "tableOwner (AssociationDefaultRouteTableId (Attr s n a) r) = Some s"
| "tableOwner t = None"

fun subnetTable :: "token \<Rightarrow> bool" where
  "subnetTable (SubnetRouteTableId s v k) = True"
| "subnetTable t = False"

definition tableSig :: "token \<times> string \<Rightarrow> stack_id option \<times> string" where
  "tableSig key = (tableOwner (fst key), snd key)"

subsection \<open>Build order and the claims about it\<close>



definition creationOrder :: "stack_id list" where
  "creationOrder =
     [ClientRegionId, WorkerRegionId 0, WorkerRouteId 0, ClientRouteId 0,
      WorkerRegionId 1, WorkerRouteId 1, ClientRouteId 1,
      PeerId 0 1, PeerRouteId 0 1, InterRouteId 1 0,
      SyncLustreId 0, SyncLustreId 1]"

definition descriptors :: "IClient \<Rightarrow> IWorker list \<Rightarrow> (string \<times> string) list" where
  "descriptors c ws = (region c, cidr c) # map (\<lambda>w. (region w, cidr w)) ws"

definition concerns :: "(string \<times> string) list \<Rightarrow> string \<Rightarrow> route \<Rightarrow> link \<Rightarrow> bool" where
  "concerns ds rgn r l =
     list_ex (\<lambda>d. snd d = destination r \<and> endpoints l = {rgn, fst d}) ds"

definition routes_after_accept ::
  "(string \<times> string) list \<Rightarrow> stack list \<Rightarrow> stack_id list \<Rightarrow> bool" where
  "routes_after_accept ds ss ord =
     list_all (\<lambda>s. list_all (\<lambda>r. list_all (\<lambda>l.
         \<not> concerns ds (env_region s) r l \<or> linkStack l = stackId s
         \<or> precedes ord (linkStack l) (stackId s)) (links ss)) (stackRoutes s)) ss"

section \<open>Reading the stacks: auxiliary facts\<close>

lemma new_sel [simp]: "res (new n r) = r" "cid (new n r) = Named n" "dependsOn (new n r) = []"
  by (simp_all add: new_def)

lemma addDependsOn_sel [simp]:
  "res (addDependsOn c n) = res c" "cid (addDependsOn c n) = cid c"
  "dependsOn (addDependsOn c n) = dependsOn c @ [n]"
  by (simp_all add: addDependsOn_def)

lemma addDependency_sel [simp]:
  "stackId (addDependency s t) = stackId s"
  "stackName (addDependency s t) = stackName s"
  "env_region (addDependency s t) = env_region s"
  "resources (addDependency s t) = resources s"
  "dependencies (addDependency s t) = dependencies s @ [stackId t]"
  by (simp_all add: addDependency_def)

lemma pick_addDependency [simp]: "pick f (addDependency s t) = pick f s"
  by (simp add: pick_def)

lemma stackLinks_addDependency [simp]: "stackLinks (addDependency s t) = stackLinks s"
  by (simp add: stackLinks_def)

lemma stackRoutes_addDependency [simp]: "stackRoutes (addDependency s t) = stackRoutes s"
  by (simp add: stackRoutes_def)

lemma stackPublished_addDependency [simp]: "stackPublished (addDependency s t) = stackPublished s"
  by (simp add: stackPublished_def)

lemma concat_map_Nil [simp]: "concat (map (\<lambda>x. []) xs) = []"
  by (induction xs) simp_all

lemma concat_map_single [simp]: "concat (map (\<lambda>x. [f x]) xs) = map f xs"
  by (induction xs) simp_all

lemma collect_Nil [simp]: "collect f [] = []"
  by (simp add: collect_def)

lemma collect_Cons [simp]: "collect f (s # ss) = f s @ collect f ss"
  by (simp add: collect_def)

lemma collect_append [simp]: "collect f (ss @ ts) = collect f ss @ collect f ts"
  by (simp add: collect_def)

lemma collect_concat: "collect f (concat xss) = concat (map (collect f) xss)"
  by (induction xss) simp_all

lemma collect_app:
  "collect f (app azs c ws) =
     f (clientStack azs c ws)
     @ concat (map (\<lambda>i. f (WorkerStacks azs c ws i) @ f (workerRoute azs c ws i)
                 @ f (clientRoute azs c ws i)) [0..<length ws])
     @ concat (map (\<lambda>x. concat (map (\<lambda>y. f (W2WTransitGateway azs ws x y)
                   @ f (WRTGWRoute azs ws x y) @ f (interRoute azs ws x y)) [Suc x..<length ws])
                 @ f (lustreToOS azs c ws x)) [0..<length ws])"
  by (simp add: app_def collect_concat comp_def workerLoop_def wiringLoop_def peerLoop_def)

text \<open>The identity, region and declared dependencies of each stack of the application.\<close>

lemma clientStack_sel [simp]:
  "stackId (clientStack azs c ws) = ClientRegionId"
  "env_region (clientStack azs c ws) = region c"
  "dependencies (clientStack azs c ws) = []"
  "stackName (clientStack azs c ws) = ''Client-Region''"
  by (simp_all add: clientStack_def ClientRegion_def Let_def)

lemma WorkerStacks_sel [simp]:
  "stackId (WorkerStacks azs c ws i) = WorkerRegionId i"
  "env_region (WorkerStacks azs c ws i) = region (ws ! i)"
  "dependencies (WorkerStacks azs c ws i) = [ClientRegionId]"
  "stackName (WorkerStacks azs c ws i) = ''Worker-Region-'' @ region (ws ! i)"
  by (simp_all add: WorkerStacks_def WorkerRegion_def Let_def)

lemma workerRoute_sel [simp]:
  "stackId (workerRoute azs c ws i) = WorkerRouteId i"
  "env_region (workerRoute azs c ws i) = region (ws ! i)"
  "dependencies (workerRoute azs c ws i) = [WorkerRegionId i]"
  by (simp_all add: workerRoute_def WorkerRegionTransitGatewayRoute_def Let_def)

lemma clientRoute_sel [simp]:
  "stackId (clientRoute azs c ws i) = ClientRouteId i"
  "env_region (clientRoute azs c ws i) = region c"
  "dependencies (clientRoute azs c ws i) = [WorkerRegionId i]"
  by (simp_all add: clientRoute_def ClientToWorkerTransitGatewayRoute_def Let_def)

lemma W2WTransitGateway_sel [simp]:
  "stackId (W2WTransitGateway azs ws x y) = PeerId x y"
  "env_region (W2WTransitGateway azs ws x y) = region (ws ! x)"
  "dependencies (W2WTransitGateway azs ws x y) = []"
  by (simp_all add: W2WTransitGateway_def WorkerToWorkerTGW_def Let_def)

lemma WRTGWRoute_sel [simp]:
  "stackId (WRTGWRoute azs ws x y) = PeerRouteId x y"
  "env_region (WRTGWRoute azs ws x y) = region (ws ! x)"
  "dependencies (WRTGWRoute azs ws x y) = [PeerId x y]"
  by (simp_all add: WRTGWRoute_def WorkerRegionTransitGatewayRoute_def Let_def)

lemma interRoute_sel [simp]:
  "stackId (interRoute azs ws x y) = InterRouteId y x"
  "env_region (interRoute azs ws x y) = region (ws ! y)"
  "dependencies (interRoute azs ws x y) = [PeerId x y]"
  by (simp_all add: interRoute_def InterRegionTransitGatewayRoute_def Let_def)

lemma lustreToOS_sel [simp]:
  "stackId (lustreToOS azs c ws x) = SyncLustreId x"
  "env_region (lustreToOS azs c ws x) = region (ws ! x)"
  "dependencies (lustreToOS azs c ws x) = []"
  by (simp_all add: lustreToOS_def SyncLustreToOpenSearch_def)

lemmas stack_defs =
  clientStack_def ClientRegion_def WorkerStacks_def WorkerRegion_def
  workerRoute_def WorkerRegionTransitGatewayRoute_def
  clientRoute_def ClientToWorkerTransitGatewayRoute_def
  W2WTransitGateway_def WorkerToWorkerTGW_def
  WRTGWRoute_def interRoute_def InterRegionTransitGatewayRoute_def
  lustreToOS_def SyncLustreToOpenSearch_def

lemmas value_defs =
  ref_def attrTransitGatewayAttachmentId_def vpcId_def privateSubnets_def subnetId_def
  routeTableId_def getParameterValue_def getRouteTableValue_def
  clientTGW_def clientVpc_def workerTgw_def attachmentID_def workerVpc_def workerVpcOf_def
  asClient_def

lemma stackLinks_stacks [simp]:
  "stackLinks (clientStack azs c ws) = []"
  "stackLinks (WorkerStacks azs c ws i) = [clientLink c ws i]"
  "stackLinks (workerRoute azs c ws i) = []"
  "stackLinks (clientRoute azs c ws i) = []"
  "stackLinks (W2WTransitGateway azs ws x y) = [workerLink ws x y]"
  "stackLinks (WRTGWRoute azs ws x y) = []"
  "stackLinks (interRoute azs ws x y) = []"
  "stackLinks (lustreToOS azs c ws x) = []"
  by (simp_all add: stackLinks_def pick_def stack_defs value_defs Let_def comp_def
      clientLink_def workerLink_def)

lemma links_app:
  "links (app azs c ws) =
     map (clientLink c ws) [0..<length ws]
     @ concat (map (\<lambda>x. map (workerLink ws x) [Suc x..<length ws]) [0..<length ws])"
  by (simp add: links_def collect_app)

lemma concat_concat_map_single [simp]:
  "concat (concat (map (\<lambda>x. map (\<lambda>y. [g x y]) (ys x)) xs)) = concat (map (\<lambda>x. map (g x) (ys x)) xs)"
  by (induction xs) simp_all

lemma stackRoutes_stacks [simp]:
  "stackRoutes (clientStack azs c ws) =
     concat (map (\<lambda>w. map (subnetRoute ClientRegionId ClientRegionId ''Scheduler VPC'' (cidr w)
        (Attr ClientRegionId ''TGW'' ''Ref'') [''tgw-attachment'']) [0..<azs (region c)]) ws)"
  "stackRoutes (WorkerStacks azs c ws i) =
     map (subnetRoute (WorkerRegionId i) (WorkerRegionId i) ''Worker VPC'' (cidr c)
        (Attr (WorkerRegionId i) ''TGW'' ''Ref'') [''Peering Connection''])
       [0..<azs (region (ws ! i))]"
  "stackRoutes (workerRoute azs c ws i) =
     [gatewayRoute (WorkerRouteId i) (WorkerRegionId i) (region (ws ! i)) (cidr c)
        (Attr (WorkerRegionId i) ''Peering Connection'' ''TransitGatewayAttachmentId'')]"
  "stackRoutes (clientRoute azs c ws i) =
     [gatewayRoute (ClientRouteId i) ClientRegionId (region c) (cidr (ws ! i))
        (ParameterValue (''tgw-attachmentid-'' @ region (ws ! i)) (region (ws ! i)))]"
  "stackRoutes (W2WTransitGateway azs ws x y) =
     map (subnetRoute (PeerId x y) (WorkerRegionId x) ''Worker VPC'' (cidr (ws ! y))
        (ParameterValue (''tgw-param-'' @ region (ws ! x)) (region (ws ! x)))
        [''Peering Connection''])
       [0..<azs (region (ws ! x))]"
  "stackRoutes (WRTGWRoute azs ws x y) =
     [gatewayRoute (PeerRouteId x y) (WorkerRegionId x) (region (ws ! x)) (cidr (ws ! y))
        (Attr (PeerId x y) ''Peering Connection'' ''TransitGatewayAttachmentId'')]"
  "stackRoutes (interRoute azs ws x y) =
     gatewayRoute (InterRouteId y x) (WorkerRegionId y) (region (ws ! y)) (cidr (ws ! x))
        (ParameterValue (''tgw-attachmentid-'' @ region (ws ! x) @ ''-'' @ region (ws ! y))
           (region (ws ! x)))
     # map (subnetRoute (InterRouteId y x) (WorkerRegionId y) ''Worker VPC'' (cidr (ws ! x))
        (Attr (WorkerRegionId y) ''TGW'' ''Ref'') [])
       [0..<azs (region (ws ! y))]"
  "stackRoutes (lustreToOS azs c ws x) = []"
  by (simp_all add: stackRoutes_def pick_def stack_defs value_defs Let_def comp_def
      subnetRoute_def [abs_def] gatewayRoute_def map_concat)

lemma stackPublished_stacks [simp]:
  "stackPublished (clientStack azs c ws) =
     [((region c, ''tgw-param-'' @ region c), Attr ClientRegionId ''TGW'' ''Ref''),
      ((region c, ''privatenp-hostedid-param-'' @ region c),
         Attr ClientRegionId ''local-dask'' ''NamespaceHostedZoneId''),
      ((region c, ''client-opensearch-domain-'' @ region c),
         Attr ClientRegionId ''OpenSearch Domain'' ''DomainEndpoint''),
      ((region c, ''client-opensearch-arn-'' @ region c),
         Attr ClientRegionId ''OpenSearch Domain'' ''Arn'')]"
  "stackPublished (WorkerStacks azs c ws i) =
     [((region (ws ! i), ''tgw-param-'' @ region (ws ! i)), Attr (WorkerRegionId i) ''TGW'' ''Ref''),
      ((region (ws ! i), ''tgw-attachmentid-'' @ region (ws ! i)),
         Attr (WorkerRegionId i) ''Peering Connection'' ''TransitGatewayAttachmentId'')]"
  "stackPublished (workerRoute azs c ws i) = []"
  "stackPublished (clientRoute azs c ws i) = []"
  "stackPublished (W2WTransitGateway azs ws x y) =
     [((region (ws ! x), ''tgw-attachmentid-'' @ region (ws ! x) @ ''-'' @ region (ws ! y)),
         Attr (PeerId x y) ''Peering Connection'' ''TransitGatewayAttachmentId'')]"
  "stackPublished (WRTGWRoute azs ws x y) = []"
  "stackPublished (interRoute azs ws x y) = []"
  "stackPublished (lustreToOS azs c ws x) =
     [((region (ws ! x), ''client-region-for-dask-worker-'' @ region (ws ! x)), Plain (region c)),
      ((region (ws ! x), ''worker-region-data-bucket-for-dask-worker-'' @ region (ws ! x)),
         BucketOf (dataset (ws ! x)))]"
  by (simp_all add: stackPublished_def pick_def stack_defs value_defs Let_def comp_def)

lemma stackGateways_addDependency [simp]: "stackGateways (addDependency s t) = stackGateways s"
  by (simp add: stackGateways_def)

lemma gateways_stacks [simp]:
  "stackGateways (clientStack azs c ws) = [clientGateway c]"
  "stackGateways (WorkerStacks azs c ws i) = [workerGateway ws i]"
  "stackGateways (workerRoute azs c ws i) = []"
  "stackGateways (clientRoute azs c ws i) = []"
  "stackGateways (W2WTransitGateway azs ws x y) = []"
  "stackGateways (WRTGWRoute azs ws x y) = []"
  "stackGateways (interRoute azs ws x y) = []"
  "stackGateways (lustreToOS azs c ws x) = []"
  by (simp_all add: stackGateways_def pick_def stack_defs value_defs Let_def comp_def
      clientGateway_def workerGateway_def)

lemma vpcAttachments_stacks [simp]:
  "pick vpcAttachmentOf (clientStack azs c ws) =
     [(ClientRegionId, Attr ClientRegionId ''TGW'' ''Ref'', Attr ClientRegionId ''Scheduler VPC'' ''VpcId'')]"
  "pick vpcAttachmentOf (WorkerStacks azs c ws i) =
     [(WorkerRegionId i, Attr (WorkerRegionId i) ''TGW'' ''Ref'',
       Attr (WorkerRegionId i) ''Worker VPC'' ''VpcId'')]"
  "pick vpcAttachmentOf (workerRoute azs c ws i) = []"
  "pick vpcAttachmentOf (clientRoute azs c ws i) = []"
  "pick vpcAttachmentOf (W2WTransitGateway azs ws x y) = []"
  "pick vpcAttachmentOf (WRTGWRoute azs ws x y) = []"
  "pick vpcAttachmentOf (interRoute azs ws x y) = []"
  "pick vpcAttachmentOf (lustreToOS azs c ws x) = []"
  by (simp_all add: pick_def stack_defs value_defs Let_def comp_def)

lemma networks_stacks [simp]:
  "pick networkOf (clientStack azs c ws) = [(Attr ClientRegionId ''Scheduler VPC'' ''VpcId'', cidr c)]"
  "pick networkOf (WorkerStacks azs c ws i) =
     [(Attr (WorkerRegionId i) ''Worker VPC'' ''VpcId'', cidr (ws ! i))]"
  "pick networkOf (workerRoute azs c ws i) = []"
  "pick networkOf (clientRoute azs c ws i) = []"
  "pick networkOf (W2WTransitGateway azs ws x y) = []"
  "pick networkOf (WRTGWRoute azs ws x y) = []"
  "pick networkOf (interRoute azs ws x y) = []"
  "pick networkOf (lustreToOS azs c ws x) = []"
  by (simp_all add: pick_def stack_defs value_defs Let_def comp_def)

lemma readers_stacks [simp]:
  "pick readerOf (clientStack azs c ws) = []"
  "pick readerOf (WorkerStacks azs c ws i) =
     [(WorkerRegionId i, region c, ''tgw-param-'' @ region c),
      (WorkerRegionId i, region c, ''privatenp-hostedid-param-'' @ region c)]"
  "pick readerOf (workerRoute azs c ws i) = []"
  "pick readerOf (clientRoute azs c ws i) =
     [(ClientRouteId i, region (ws ! i), ''tgw-attachmentid-'' @ region (ws ! i))]"
  "pick readerOf (W2WTransitGateway azs ws x y) =
     [(PeerId x y, region (ws ! y), ''tgw-param-'' @ region (ws ! y)),
      (PeerId x y, region (ws ! x), ''tgw-param-'' @ region (ws ! x))]"
  "pick readerOf (WRTGWRoute azs ws x y) = []"
  "pick readerOf (interRoute azs ws x y) =
     [(InterRouteId y x, region (ws ! x),
       ''tgw-attachmentid-'' @ region (ws ! x) @ ''-'' @ region (ws ! y))]"
  "pick readerOf (lustreToOS azs c ws x) =
     [(SyncLustreId x, region c, ''client-opensearch-arn-'' @ region c)]"
  by (simp_all add: pick_def stack_defs value_defs Let_def comp_def)




lemma distinct_concat_map:
  assumes "distinct xs"
    and "\<And>x. x \<in> set xs \<Longrightarrow> distinct (f x)"
    and "\<And>x y. x \<in> set xs \<Longrightarrow> y \<in> set xs \<Longrightarrow> x \<noteq> y \<Longrightarrow> set (f x) \<inter> set (f y) = {}"
  shows "distinct (concat (map f xs))"
  using assms
proof (induction xs)
  case Nil
  then show ?case by simp
next
  case (Cons a xs)
  have "distinct (concat (map f xs))"
    using Cons by simp
  moreover have "distinct (f a)"
    using Cons.prems(2) by simp
  moreover have "set (f a) \<inter> set (f y) = {}" if "y \<in> set xs" for y
    using Cons.prems(1) Cons.prems(3) [of a y] that by auto
  ultimately show ?case by auto
qed




lemma region_nth_inj:
  assumes "distinct (participants c ws)" "i < length ws" "j < length ws"
  shows "region (ws ! i) = region (ws ! j) \<longleftrightarrow> i = j"
proof -
  have "distinct (map region ws)"
    using assms(1) by (simp add: participants_def)
  then show ?thesis
    using assms(2,3) nth_eq_iff_index_eq [of "map region ws" i j] by simp
qed

lemma region_nth_client:
  assumes "distinct (participants c ws)" "i < length ws"
  shows "region (ws ! i) \<noteq> region c"
proof -
  have "region (ws ! i) \<in> set (map region ws)"
    using assms(2) by simp
  then show ?thesis
    using assms(1) by (auto simp: participants_def)
qed


lemma endpoints_simps [simp]:
  "endpoints (clientLink c ws i) = {region (ws ! i), region c}"
  "endpoints (workerLink ws x y) = {region (ws ! x), region (ws ! y)}"
  by (simp_all add: endpoints_def clientLink_def workerLink_def)





lemma default_participants: "distinct (participants client workers)"
  by (simp add: participants_def client_def workers_def)

lemma published_keys_app:
  "map fst (published (app azs c ws)) =
     clientKeys c @ concat (map (workerKeys ws) [0..<length ws])
     @ concat (map (wiringKeys ws) [0..<length ws])"
  by (simp add: published_def collect_app map_concat comp_def clientKeys_def
      workerKeys_def [abs_def] wiringKeys_def [abs_def])

lemma fst_workerKeys: "k \<in> set (workerKeys ws i) \<Longrightarrow> fst k = region (ws ! i)"
  by (auto simp: workerKeys_def)

lemma fst_wiringKeys: "k \<in> set (wiringKeys ws x) \<Longrightarrow> fst k = region (ws ! x)"
  by (auto simp: wiringKeys_def)

lemma fst_clientKeys: "k \<in> set (clientKeys c) \<Longrightarrow> fst k = region c"
  by (auto simp: clientKeys_def)

lemma distinct_clientKeys: "distinct (clientKeys c)"
  by (simp add: clientKeys_def)

lemma distinct_workerKeys: "distinct (workerKeys ws i)"
  by (simp add: workerKeys_def)

lemma distinct_wiringKeys:
  assumes d: "distinct (participants c ws)" and x: "x < length ws"
  shows "distinct (wiringKeys ws x)"
proof -
  have "inj_on (\<lambda>y. (region (ws ! x), ''tgw-attachmentid-'' @ region (ws ! x) @ ''-'' @ region (ws ! y)))
      (set [Suc x..<length ws])"
    by (rule inj_onI) (use region_nth_inj [OF d] in simp)
  then have "distinct (map (\<lambda>y. (region (ws ! x),
      ''tgw-attachmentid-'' @ region (ws ! x) @ ''-'' @ region (ws ! y))) [Suc x..<length ws])"
    by (simp add: distinct_map)
  then show ?thesis
    by (auto simp: wiringKeys_def)
qed

lemma worker_wiring_disjoint: "set (workerKeys ws i) \<inter> set (wiringKeys ws i) = {}"
  by (auto simp: workerKeys_def wiringKeys_def)

lemma distinct_published_keys:
  assumes d: "distinct (participants c ws)"
  shows "distinct (map fst (published (app azs c ws)))"
proof -
  let ?n = "length ws"
  note inj = region_nth_inj [OF d]
  note cl = region_nth_client [OF d]
  have A: "distinct (concat (map (workerKeys ws) [0..<?n]))"
  proof (rule distinct_concat_map)
    show "distinct [0..<?n]" by simp
    show "distinct (workerKeys ws x)" for x by (rule distinct_workerKeys)
    show "set (workerKeys ws x) \<inter> set (workerKeys ws y) = {}"
      if "x \<in> set [0..<?n]" "y \<in> set [0..<?n]" "x \<noteq> y" for x y
    proof -
      have "region (ws ! x) \<noteq> region (ws ! y)" using inj [of x y] that by simp
      then show ?thesis using fst_workerKeys [of _ ws x] fst_workerKeys [of _ ws y] by fastforce
    qed
  qed
  have B: "distinct (concat (map (wiringKeys ws) [0..<?n]))"
  proof (rule distinct_concat_map)
    show "distinct [0..<?n]" by simp
    show "distinct (wiringKeys ws x)" if "x \<in> set [0..<?n]" for x
      using distinct_wiringKeys [OF d] that by simp
    show "set (wiringKeys ws x) \<inter> set (wiringKeys ws y) = {}"
      if "x \<in> set [0..<?n]" "y \<in> set [0..<?n]" "x \<noteq> y" for x y
    proof -
      have "region (ws ! x) \<noteq> region (ws ! y)" using inj [of x y] that by simp
      then show ?thesis using fst_wiringKeys [of _ ws x] fst_wiringKeys [of _ ws y] by fastforce
    qed
  qed
  have AB: "set (concat (map (workerKeys ws) [0..<?n])) \<inter> set (concat (map (wiringKeys ws) [0..<?n])) = {}"
  proof -
    have False if "i < ?n" "x < ?n" "k \<in> set (workerKeys ws i)" "k \<in> set (wiringKeys ws x)" for i x k
    proof -
      have "region (ws ! i) = region (ws ! x)"
        using fst_workerKeys [OF that(3)] fst_wiringKeys [OF that(4)] by simp
      then have "i = x" using inj [of i x] that by simp
      then show False using worker_wiring_disjoint [of ws i] that(3,4) by auto
    qed
    then show ?thesis by auto
  qed
  have C: "set (clientKeys c) \<inter> set (concat (map (workerKeys ws) [0..<?n])) = {}"
  proof -
    have False if "i < ?n" "k \<in> set (clientKeys c)" "k \<in> set (workerKeys ws i)" for i k
      using fst_clientKeys [OF that(2)] fst_workerKeys [OF that(3)] cl [OF that(1)] by simp
    then show ?thesis by auto
  qed
  have D: "set (clientKeys c) \<inter> set (concat (map (wiringKeys ws) [0..<?n])) = {}"
  proof -
    have False if "i < ?n" "k \<in> set (clientKeys c)" "k \<in> set (wiringKeys ws i)" for i k
      using fst_clientKeys [OF that(2)] fst_wiringKeys [OF that(3)] cl [OF that(1)] by simp
    then show ?thesis by auto
  qed
  show ?thesis
    unfolding published_keys_app using distinct_clientKeys A B AB C D
    by (simp add: Int_Un_distrib)
qed

lemma set_app:
  "set (app azs c ws) =
     {clientStack azs c ws}
     \<union> (\<Union>i\<in>{0..<length ws}. {WorkerStacks azs c ws i, workerRoute azs c ws i, clientRoute azs c ws i})
     \<union> (\<Union>x\<in>{0..<length ws}.
          (\<Union>y\<in>{Suc x..<length ws}.
             {W2WTransitGateway azs ws x y, WRTGWRoute azs ws x y, interRoute azs ws x y})
          \<union> {lustreToOS azs c ws x})"
  by (simp add: app_def workerLoop_def wiringLoop_def peerLoop_def)

lemma in_app_cases:
  assumes "s \<in> set (app azs c ws)"
  obtains "s = clientStack azs c ws"
  | i where "i < length ws" "s = WorkerStacks azs c ws i"
  | i where "i < length ws" "s = workerRoute azs c ws i"
  | i where "i < length ws" "s = clientRoute azs c ws i"
  | x y where "x < y" "y < length ws" "s = W2WTransitGateway azs ws x y"
  | x y where "x < y" "y < length ws" "s = WRTGWRoute azs ws x y"
  | x y where "x < y" "y < length ws" "s = interRoute azs ws x y"
  | x where "x < length ws" "s = lustreToOS azs c ws x"
proof -
  from assms consider "s = clientStack azs c ws"
    | i where "i \<in> {0..<length ws}"
        "s \<in> {WorkerStacks azs c ws i, workerRoute azs c ws i, clientRoute azs c ws i}"
    | x y where "x \<in> {0..<length ws}" "y \<in> {Suc x..<length ws}"
        "s \<in> {W2WTransitGateway azs ws x y, WRTGWRoute azs ws x y, interRoute azs ws x y}"
    | x where "x \<in> {0..<length ws}" "s = lustreToOS azs c ws x"
    unfolding set_app by blast
  then show thesis
  proof cases
    case 1
    then show ?thesis using that(1) by simp
  next
    case (2 i)
    then show ?thesis using that(2,3,4) [of i] by auto
  next
    case (3 x y)
    then have "x < y" "y < length ws" by simp_all
    then show ?thesis using 3(3) that(5,6,7) [of x y] by auto
  next
    case (4 x)
    then show ?thesis using that(8) [of x] by simp
  qed
qed

lemma in_app:
  "clientStack azs c ws \<in> set (app azs c ws)"
  "i < length ws \<Longrightarrow> WorkerStacks azs c ws i \<in> set (app azs c ws)"
  "i < length ws \<Longrightarrow> workerRoute azs c ws i \<in> set (app azs c ws)"
  "i < length ws \<Longrightarrow> clientRoute azs c ws i \<in> set (app azs c ws)"
  "x < y \<Longrightarrow> y < length ws \<Longrightarrow> W2WTransitGateway azs ws x y \<in> set (app azs c ws)"
  "x < y \<Longrightarrow> y < length ws \<Longrightarrow> WRTGWRoute azs ws x y \<in> set (app azs c ws)"
  "x < y \<Longrightarrow> y < length ws \<Longrightarrow> interRoute azs ws x y \<in> set (app azs c ws)"
  "x < length ws \<Longrightarrow> lustreToOS azs c ws x \<in> set (app azs c ws)"
proof -
  show "clientStack azs c ws \<in> set (app azs c ws)"
    unfolding set_app by simp
  show "WorkerStacks azs c ws i \<in> set (app azs c ws)" if "i < length ws"
  proof -
    have "i \<in> {0..<length ws}" using that by simp
    then show ?thesis unfolding set_app by blast
  qed
  show "workerRoute azs c ws i \<in> set (app azs c ws)" if "i < length ws"
  proof -
    have "i \<in> {0..<length ws}" using that by simp
    then show ?thesis unfolding set_app by blast
  qed
  show "clientRoute azs c ws i \<in> set (app azs c ws)" if "i < length ws"
  proof -
    have "i \<in> {0..<length ws}" using that by simp
    then show ?thesis unfolding set_app by blast
  qed
  have xy: "x \<in> {0..<length ws}" "y \<in> {Suc x..<length ws}" if "x < y" "y < length ws"
    using that by simp_all
  show "W2WTransitGateway azs ws x y \<in> set (app azs c ws)" if "x < y" "y < length ws"
    unfolding set_app using xy [OF that] by blast
  show "WRTGWRoute azs ws x y \<in> set (app azs c ws)" if "x < y" "y < length ws"
    unfolding set_app using xy [OF that] by blast
  show "interRoute azs ws x y \<in> set (app azs c ws)" if "x < y" "y < length ws"
    unfolding set_app using xy [OF that] by blast
  show "lustreToOS azs c ws x \<in> set (app azs c ws)" if "x < length ws"
  proof -
    have "x \<in> {0..<length ws}" using that by simp
    then show ?thesis unfolding set_app by blast
  qed
qed

lemma in_collect: "s \<in> set ss \<Longrightarrow> v \<in> set (f s) \<Longrightarrow> v \<in> set (collect f ss)"
  by (auto simp: collect_def)

lemma collect_cases:
  assumes "v \<in> set (collect f ss)"
  obtains s where "s \<in> set ss" "v \<in> set (f s)"
  using assms by (auto simp: collect_def)

lemma fetch_published:
  assumes "distinct (participants c ws)" "s \<in> set (app azs c ws)" "(k, v) \<in> set (stackPublished s)"
  shows "map_of (published (app azs c ws)) k = Some v"
proof -
  have "(k, v) \<in> set (published (app azs c ws))"
    unfolding published_def using assms(2,3) by (rule in_collect)
  with distinct_published_keys [OF assms(1)] show ?thesis
    by (rule map_of_is_SomeI)
qed

lemma resolve_client_gateway:
  assumes "distinct (participants c ws)"
  shows "resolve (published (app azs c ws)) (ParameterValue (''tgw-param-'' @ region c) (region c))
    = Attr ClientRegionId ''TGW'' ''Ref''"
  using fetch_published [OF assms in_app(1), of "(region c, ''tgw-param-'' @ region c)"
      "Attr ClientRegionId ''TGW'' ''Ref''" azs]
  by simp

lemma resolve_worker_gateway:
  assumes "distinct (participants c ws)" "i < length ws"
  shows "resolve (published (app azs c ws))
      (ParameterValue (''tgw-param-'' @ region (ws ! i)) (region (ws ! i)))
    = Attr (WorkerRegionId i) ''TGW'' ''Ref''"
  using fetch_published [OF assms(1) in_app(2) [OF assms(2)],
      of "(region (ws ! i), ''tgw-param-'' @ region (ws ! i))"
      "Attr (WorkerRegionId i) ''TGW'' ''Ref''" azs]
  by simp

lemma resolve_worker_attachment:
  assumes "distinct (participants c ws)" "i < length ws"
  shows "resolve (published (app azs c ws))
      (ParameterValue (''tgw-attachmentid-'' @ region (ws ! i)) (region (ws ! i)))
    = Attr (WorkerRegionId i) ''Peering Connection'' ''TransitGatewayAttachmentId''"
  using fetch_published [OF assms(1) in_app(2) [OF assms(2)],
      of "(region (ws ! i), ''tgw-attachmentid-'' @ region (ws ! i))"
      "Attr (WorkerRegionId i) ''Peering Connection'' ''TransitGatewayAttachmentId''" azs]
  by simp

lemma resolve_peer_attachment:
  assumes "distinct (participants c ws)" "x < y" "y < length ws"
  shows "resolve (published (app azs c ws))
      (ParameterValue (''tgw-attachmentid-'' @ region (ws ! x) @ ''-'' @ region (ws ! y))
         (region (ws ! x)))
    = Attr (PeerId x y) ''Peering Connection'' ''TransitGatewayAttachmentId''"
  using fetch_published [OF assms(1) in_app(5) [OF assms(2,3)],
      of "(region (ws ! x), ''tgw-attachmentid-'' @ region (ws ! x) @ ''-'' @ region (ws ! y))"
      "Attr (PeerId x y) ''Peering Connection'' ''TransitGatewayAttachmentId''" azs]
  by simp

lemma upt_3: "[0..<3] = [0, 1, 2]" "[Suc 0..<3] = [1, 2]" "[Suc 1..<3] = [2]" "[Suc 2..<3] = []"
  by (simp_all add: upt_rec)

lemma map_nth_upt: "map (\<lambda>i. f (ws ! i)) [0..<length ws] = map f ws"
proof -
  have "map f (map ((!) ws) [0..<length ws]) = map f ws"
    by (simp only: map_nth)
  then show ?thesis
    by (simp add: comp_def)
qed




lemma concat_map_nth_upt:
  "concat (map (\<lambda>i. f (ws ! i)) [0..<length ws]) = concat (map f ws)"
  by (simp add: map_nth_upt)

lemma routes_app:
  "routes (app azs c ws) =
     concat (map (\<lambda>w. map (subnetRoute ClientRegionId ClientRegionId ''Scheduler VPC'' (cidr w)
        (Attr ClientRegionId ''TGW'' ''Ref'') [''tgw-attachment'']) [0..<azs (region c)]) ws)
     @ concat (map (\<lambda>i.
         map (subnetRoute (WorkerRegionId i) (WorkerRegionId i) ''Worker VPC'' (cidr c)
            (Attr (WorkerRegionId i) ''TGW'' ''Ref'') [''Peering Connection''])
           [0..<azs (region (ws ! i))]
         @ [gatewayRoute (WorkerRouteId i) (WorkerRegionId i) (region (ws ! i)) (cidr c)
              (Attr (WorkerRegionId i) ''Peering Connection'' ''TransitGatewayAttachmentId''),
            gatewayRoute (ClientRouteId i) ClientRegionId (region c) (cidr (ws ! i))
              (ParameterValue (''tgw-attachmentid-'' @ region (ws ! i)) (region (ws ! i)))])
         [0..<length ws])
     @ concat (map (\<lambda>x. concat (map (\<lambda>y.
         map (subnetRoute (PeerId x y) (WorkerRegionId x) ''Worker VPC'' (cidr (ws ! y))
            (ParameterValue (''tgw-param-'' @ region (ws ! x)) (region (ws ! x)))
            [''Peering Connection''])
           [0..<azs (region (ws ! x))]
         @ [gatewayRoute (PeerRouteId x y) (WorkerRegionId x) (region (ws ! x)) (cidr (ws ! y))
              (Attr (PeerId x y) ''Peering Connection'' ''TransitGatewayAttachmentId''),
            gatewayRoute (InterRouteId y x) (WorkerRegionId y) (region (ws ! y)) (cidr (ws ! x))
              (ParameterValue (''tgw-attachmentid-'' @ region (ws ! x) @ ''-'' @ region (ws ! y))
                 (region (ws ! x)))]
         @ map (subnetRoute (InterRouteId y x) (WorkerRegionId y) ''Worker VPC'' (cidr (ws ! x))
            (Attr (WorkerRegionId y) ''TGW'' ''Ref'') [])
           [0..<azs (region (ws ! y))])
         [Suc x..<length ws])) [0..<length ws])"
  by (simp add: routes_def collect_app)

lemma routeKey_simps [simp]:
  "routeKey (subnetRoute sid owner v d t w k) = (SubnetRouteTableId owner v k, d)"
  "routeKey (gatewayRoute sid owner r d a) =
     (AssociationDefaultRouteTableId (Attr owner ''TGW'' ''Ref'') r, d)"
  by (simp_all add: routeKey_def subnetRoute_def gatewayRoute_def)

lemma route_keys_app:
  "map routeKey (routes (app azs c ws)) =
     clientRouteKeys azs c ws
     @ concat (map (workerRouteKeys azs c ws) [0..<length ws])
     @ concat (map (\<lambda>x. concat (map (peerRouteKeys azs ws x) [Suc x..<length ws])) [0..<length ws])"
proof -
  have "clientRouteKeys azs c ws =
      concat (map (\<lambda>w. map (\<lambda>k. (SubnetRouteTableId ClientRegionId ''Scheduler VPC'' k, cidr w))
        [0..<azs (region c)]) ws)"
    unfolding clientRouteKeys_def by (rule concat_map_nth_upt)
  then show ?thesis
    unfolding routes_app
    by (simp add: map_concat comp_def workerRouteKeys_def [abs_def] peerRouteKeys_def [abs_def])
qed

lemma cidr_nth_inj:
  assumes "distinct (blocks c ws)" "i < length ws" "j < length ws"
  shows "cidr (ws ! i) = cidr (ws ! j) \<longleftrightarrow> i = j"
proof -
  have "distinct (map cidr ws)"
    using assms(1) by (simp add: blocks_def)
  then show ?thesis
    using assms(2,3) nth_eq_iff_index_eq [of "map cidr ws" i j] by simp
qed

lemma cidr_nth_client:
  assumes "distinct (blocks c ws)" "i < length ws"
  shows "cidr (ws ! i) \<noteq> cidr c"
proof -
  have "cidr (ws ! i) \<in> set (map cidr ws)"
    using assms(2) by simp
  then show ?thesis
    using assms(1) by (auto simp: blocks_def)
qed

lemma sig_clientRouteKeys:
  assumes "key \<in> set (clientRouteKeys azs c ws)"
  obtains i where "i < length ws" "tableSig key = (Some ClientRegionId, cidr (ws ! i))" "subnetTable (fst key)"
proof -
  from assms obtain i k where "i < length ws"
    "key = (SubnetRouteTableId ClientRegionId ''Scheduler VPC'' k, cidr (ws ! i))"
    unfolding clientRouteKeys_def by auto
  then show thesis
    using that [of i] by (simp add: tableSig_def)
qed

lemma sig_workerRouteKeys:
  assumes "key \<in> set (workerRouteKeys azs c ws i)"
  obtains "tableSig key = (Some (WorkerRegionId i), cidr c)"
  | "tableSig key = (Some ClientRegionId, cidr (ws ! i))" "\<not> subnetTable (fst key)"
proof -
  from assms consider k where "key = (SubnetRouteTableId (WorkerRegionId i) ''Worker VPC'' k, cidr c)"
    | "key = (AssociationDefaultRouteTableId (Attr (WorkerRegionId i) ''TGW'' ''Ref'')
               (region (ws ! i)), cidr c)"
    | "key = (AssociationDefaultRouteTableId (Attr ClientRegionId ''TGW'' ''Ref'') (region c),
               cidr (ws ! i))"
    unfolding workerRouteKeys_def by auto
  then show thesis
  proof cases
    case (1 k)
    then show ?thesis using that(1) by (simp add: tableSig_def)
  next
    case 2
    then show ?thesis using that(1) by (simp add: tableSig_def)
  next
    case 3
    then show ?thesis using that(2) by (simp add: tableSig_def)
  qed
qed

lemma sig_peerRouteKeys:
  assumes "key \<in> set (peerRouteKeys azs ws x y)"
  obtains "tableSig key = (Some (WorkerRegionId x), cidr (ws ! y))"
  | "tableSig key = (Some (WorkerRegionId y), cidr (ws ! x))"
proof -
  from assms consider k where "key = (SubnetRouteTableId (WorkerRegionId x) ''Worker VPC'' k, cidr (ws ! y))"
    | "key = (AssociationDefaultRouteTableId (Attr (WorkerRegionId x) ''TGW'' ''Ref'')
               (region (ws ! x)), cidr (ws ! y))"
    | "key = (AssociationDefaultRouteTableId (Attr (WorkerRegionId y) ''TGW'' ''Ref'')
               (region (ws ! y)), cidr (ws ! x))"
    | k where "key = (SubnetRouteTableId (WorkerRegionId y) ''Worker VPC'' k, cidr (ws ! x))"
    unfolding peerRouteKeys_def by auto
  then show thesis
  proof cases
    case (1 k)
    then show ?thesis using that(1) by (simp add: tableSig_def)
  next
    case 2
    then show ?thesis using that(1) by (simp add: tableSig_def)
  next
    case 3
    then show ?thesis using that(2) by (simp add: tableSig_def)
  next
    case (4 k)
    then show ?thesis using that(2) by (simp add: tableSig_def)
  qed
qed

lemma distinct_clientRouteKeys:
  assumes d: "distinct (blocks c ws)"
  shows "distinct (clientRouteKeys azs c ws)"
  unfolding clientRouteKeys_def
proof (rule distinct_concat_map)
  show "distinct [0..<length ws]" by simp
  show "distinct (map (\<lambda>k. (SubnetRouteTableId ClientRegionId ''Scheduler VPC'' k, cidr (ws ! i)))
      [0..<azs (region c)])" for i
    by (simp add: distinct_map inj_on_def)
  show "set (map (\<lambda>k. (SubnetRouteTableId ClientRegionId ''Scheduler VPC'' k, cidr (ws ! i)))
        [0..<azs (region c)])
      \<inter> set (map (\<lambda>k. (SubnetRouteTableId ClientRegionId ''Scheduler VPC'' k, cidr (ws ! j)))
        [0..<azs (region c)]) = {}"
    if "i \<in> set [0..<length ws]" "j \<in> set [0..<length ws]" "i \<noteq> j" for i j
  proof -
    have "cidr (ws ! i) \<noteq> cidr (ws ! j)"
      using cidr_nth_inj [OF d, of i j] that by simp
    then show ?thesis by auto
  qed
qed

lemma distinct_workerRouteKeys1: "distinct (workerRouteKeys azs c ws i)"
  by (auto simp: workerRouteKeys_def distinct_map inj_on_def)

lemma distinct_peerRouteKeys1: "x < y \<Longrightarrow> distinct (peerRouteKeys azs ws x y)"
  by (auto simp: peerRouteKeys_def distinct_map inj_on_def)

lemma distinct_workerRouteKeys:
  assumes d: "distinct (blocks c ws)"
  shows "distinct (concat (map (workerRouteKeys azs c ws) [0..<length ws]))"
proof (rule distinct_concat_map)
  show "distinct [0..<length ws]" by simp
  show "distinct (workerRouteKeys azs c ws i)" for i
    by (rule distinct_workerRouteKeys1)
  show "set (workerRouteKeys azs c ws i) \<inter> set (workerRouteKeys azs c ws j) = {}"
    if "i \<in> set [0..<length ws]" "j \<in> set [0..<length ws]" "i \<noteq> j" for i j
  proof -
    have ne: "cidr (ws ! i) \<noteq> cidr (ws ! j)"
      using cidr_nth_inj [OF d, of i j] that by simp
    have False if a: "key \<in> set (workerRouteKeys azs c ws i)"
      and b: "key \<in> set (workerRouteKeys azs c ws j)" for key
      using a
    proof (cases rule: sig_workerRouteKeys)
      case 1
      from b show False
        by (cases rule: sig_workerRouteKeys) (use 1 \<open>i \<noteq> j\<close> in auto)
    next
      case 2
      from b show False
        by (cases rule: sig_workerRouteKeys) (use 2 ne in auto)
    qed
    then show ?thesis by auto
  qed
qed

lemma peerRouteKeys_unique:
  assumes d: "distinct (blocks c ws)"
    and "x < y" "y < length ws" "x' < y'" "y' < length ws"
    and a: "key \<in> set (peerRouteKeys azs ws x y)" and b: "key \<in> set (peerRouteKeys azs ws x' y')"
  shows "x = x' \<and> y = y'"
proof -
  note inj = cidr_nth_inj [OF d]
  have lt: "x < length ws" "x' < length ws" using assms(2-5) by simp_all
  from a show ?thesis
  proof (cases rule: sig_peerRouteKeys)
    case 1
    from b show ?thesis
    proof (cases rule: sig_peerRouteKeys)
      case 1
      with \<open>tableSig key = (Some (WorkerRegionId x), cidr (ws ! y))\<close>
      have "x = x'" "cidr (ws ! y) = cidr (ws ! y')" by simp_all
      then show ?thesis using inj [of y y'] assms(3,5) by simp
    next
      case 2
      with \<open>tableSig key = (Some (WorkerRegionId x), cidr (ws ! y))\<close>
      have "x = y'" "cidr (ws ! y) = cidr (ws ! x')" by simp_all
      then have "x = y'" "y = x'" using inj [of y x'] assms(3) lt by simp_all
      then show ?thesis using assms(2,4) by simp
    qed
  next
    case 2
    from b show ?thesis
    proof (cases rule: sig_peerRouteKeys)
      case 1
      with \<open>tableSig key = (Some (WorkerRegionId y), cidr (ws ! x))\<close>
      have "y = x'" "cidr (ws ! x) = cidr (ws ! y')" by simp_all
      then have "y = x'" "x = y'" using inj [of x y'] assms(5) lt by simp_all
      then show ?thesis using assms(2,4) by simp
    next
      case 2
      with \<open>tableSig key = (Some (WorkerRegionId y), cidr (ws ! x))\<close>
      have "y = y'" "cidr (ws ! x) = cidr (ws ! x')" by simp_all
      then show ?thesis using inj [of x x'] lt by simp
    qed
  qed
qed

lemma distinct_peerRouteKeys:
  assumes d: "distinct (blocks c ws)"
  shows "distinct (concat (map (\<lambda>x. concat (map (peerRouteKeys azs ws x) [Suc x..<length ws]))
      [0..<length ws]))"
proof (rule distinct_concat_map)
  show "distinct [0..<length ws]" by simp
  show "distinct (concat (map (peerRouteKeys azs ws x) [Suc x..<length ws]))" for x
  proof (rule distinct_concat_map)
    show "distinct [Suc x..<length ws]" by simp
    show "distinct (peerRouteKeys azs ws x y)" if "y \<in> set [Suc x..<length ws]" for y
      using that by (simp add: distinct_peerRouteKeys1)
    show "set (peerRouteKeys azs ws x y) \<inter> set (peerRouteKeys azs ws x y') = {}"
      if "y \<in> set [Suc x..<length ws]" "y' \<in> set [Suc x..<length ws]" "y \<noteq> y'" for y y'
    proof -
      have "x < y" "y < length ws" "x < y'" "y' < length ws" using that by simp_all
      then have False if "key \<in> set (peerRouteKeys azs ws x y)"
        "key \<in> set (peerRouteKeys azs ws x y')" for key
        using peerRouteKeys_unique [OF d _ _ _ _ that] \<open>y \<noteq> y'\<close> by simp
      then show ?thesis by auto
    qed
  qed
  show "set (concat (map (peerRouteKeys azs ws x) [Suc x..<length ws]))
      \<inter> set (concat (map (peerRouteKeys azs ws x') [Suc x'..<length ws])) = {}"
    if "x \<in> set [0..<length ws]" "x' \<in> set [0..<length ws]" "x \<noteq> x'" for x x'
  proof -
    have False if "Suc x \<le> y" "y < length ws" "Suc x' \<le> y'" "y' < length ws"
      "key \<in> set (peerRouteKeys azs ws x y)" "key \<in> set (peerRouteKeys azs ws x' y')" for y y' key
    proof -
      have "x < y" "x' < y'" using that by simp_all
      then show False
        using peerRouteKeys_unique [OF d _ that(2) _ that(4) that(5,6)] \<open>x \<noteq> x'\<close> by simp
    qed
    then show ?thesis by auto
  qed
qed

lemma distinct_route_keys:
  assumes d: "distinct (blocks c ws)"
  shows "distinct (map routeKey (routes (app azs c ws)))"
proof -
  let ?n = "length ws"
  let ?A = "clientRouteKeys azs c ws"
  let ?B = "concat (map (workerRouteKeys azs c ws) [0..<?n])"
  let ?C = "concat (map (\<lambda>x. concat (map (peerRouteKeys azs ws x) [Suc x..<?n])) [0..<?n])"
  note cl = cidr_nth_client [OF d]
  note inj = cidr_nth_inj [OF d]
  have AB: "set ?A \<inter> set ?B = {}"
  proof -
    have False if a: "key \<in> set ?A" and i: "i < ?n" and b: "key \<in> set (workerRouteKeys azs c ws i)"
      for key i
      using a
    proof (cases rule: sig_clientRouteKeys)
      case (1 j)
      from b show False
        by (cases rule: sig_workerRouteKeys) (use 1 in auto)
    qed
    then show ?thesis by auto
  qed
  have AC: "set ?A \<inter> set ?C = {}"
  proof -
    have False if a: "key \<in> set ?A" and b: "key \<in> set (peerRouteKeys azs ws x y)" for key x y
      using a
    proof (cases rule: sig_clientRouteKeys)
      case (1 j)
      from b show False
        by (cases rule: sig_peerRouteKeys) (use 1 in auto)
    qed
    then show ?thesis by auto
  qed
  have BC: "set ?B \<inter> set ?C = {}"
  proof -
    have False if i: "i < ?n" and xy: "Suc x \<le> y" "y < ?n"
      and a: "key \<in> set (workerRouteKeys azs c ws i)"
      and b: "key \<in> set (peerRouteKeys azs ws x y)" for key i x y
    proof -
      have x: "x < ?n" using xy by simp
      from a show False
      proof (cases rule: sig_workerRouteKeys)
        case 1
        from b show False
          by (cases rule: sig_peerRouteKeys) (use 1 cl [of x] cl [of y] x xy in auto)
      next
        case 2
        from b show False
          by (cases rule: sig_peerRouteKeys) (use 2 in auto)
      qed
    qed
    then show ?thesis by auto
  qed
  show ?thesis
    unfolding route_keys_app
    using distinct_clientRouteKeys [OF d] distinct_workerRouteKeys [OF d]
      distinct_peerRouteKeys [OF d] AB AC BC
    by (simp add: Int_Un_distrib)
qed

lemma upt_2: "[0..<2] = [0, Suc 0]" "[Suc 0..<2] = [Suc 0]" "[Suc (Suc 0)..<2] = []"
  by (simp_all add: upt_rec)

lemma level_simps [simp]:
  "level (subnetRoute sid owner v d t w k) = SubnetLevel"
  "level (gatewayRoute sid owner r d a) = GatewayLevel"
  by (simp_all add: subnetRoute_def gatewayRoute_def)

lemma route_fields [simp]:
  "routeTable (subnetRoute sid owner v d t w k) = SubnetRouteTableId owner v k"
  "destination (subnetRoute sid owner v d t w k) = d"
  "via (subnetRoute sid owner v d t w k) = t"
  "routeTable (gatewayRoute sid owner r d a) = AssociationDefaultRouteTableId (Attr owner ''TGW'' ''Ref'') r"
  "destination (gatewayRoute sid owner r d a) = d"
  "via (gatewayRoute sid owner r d a) = a"
  "routeStack (subnetRoute sid owner v d t w k) = sid"
  "routeStack (gatewayRoute sid owner r d a) = sid"
  "waitsFor (subnetRoute sid owner v d t w k) = w"
  "waitsFor (gatewayRoute sid owner r d a) = []"
  by (simp_all add: subnetRoute_def gatewayRoute_def)

lemma default_published:
  "published (app azs client workers) =
    [((''eu-west-2'', ''tgw-param-eu-west-2''), Attr ClientRegionId ''TGW'' ''Ref''),
     ((''eu-west-2'', ''privatenp-hostedid-param-eu-west-2''),
        Attr ClientRegionId ''local-dask'' ''NamespaceHostedZoneId''),
     ((''eu-west-2'', ''client-opensearch-domain-eu-west-2''),
        Attr ClientRegionId ''OpenSearch Domain'' ''DomainEndpoint''),
     ((''eu-west-2'', ''client-opensearch-arn-eu-west-2''),
        Attr ClientRegionId ''OpenSearch Domain'' ''Arn''),
     ((''us-east-1'', ''tgw-param-us-east-1''), Attr (WorkerRegionId 0) ''TGW'' ''Ref''),
     ((''us-east-1'', ''tgw-attachmentid-us-east-1''),
        Attr (WorkerRegionId 0) ''Peering Connection'' ''TransitGatewayAttachmentId''),
     ((''us-west-2'', ''tgw-param-us-west-2''), Attr (WorkerRegionId 1) ''TGW'' ''Ref''),
     ((''us-west-2'', ''tgw-attachmentid-us-west-2''),
        Attr (WorkerRegionId 1) ''Peering Connection'' ''TransitGatewayAttachmentId''),
     ((''us-east-1'', ''tgw-attachmentid-us-east-1-us-west-2''),
        Attr (PeerId 0 1) ''Peering Connection'' ''TransitGatewayAttachmentId''),
     ((''us-east-1'', ''client-region-for-dask-worker-us-east-1''), Plain ''eu-west-2''),
     ((''us-east-1'', ''worker-region-data-bucket-for-dask-worker-us-east-1''),
        BucketOf ''s3://era5-pds''),
     ((''us-west-2'', ''client-region-for-dask-worker-us-west-2''), Plain ''eu-west-2''),
     ((''us-west-2'', ''worker-region-data-bucket-for-dask-worker-us-west-2''),
        BucketOf ''s3://cmip6-pds/CMIP6/ScenarioMIP/MOHC'')]"
proof -
  have n: "length workers = 2" by (simp add: workers_def)
  show ?thesis
    unfolding published_def collect_app n
    by (simp add: workers_def client_def upt_2)
qed

lemma default_routes:
  "routes (app azs client workers) =
     map (subnetRoute ClientRegionId ClientRegionId ''Scheduler VPC'' ''10.1.0.0/16''
        (Attr ClientRegionId ''TGW'' ''Ref'') [''tgw-attachment'']) [0..<azs ''eu-west-2'']
     @ map (subnetRoute ClientRegionId ClientRegionId ''Scheduler VPC'' ''10.2.0.0/16''
        (Attr ClientRegionId ''TGW'' ''Ref'') [''tgw-attachment'']) [0..<azs ''eu-west-2'']
     @ map (subnetRoute (WorkerRegionId 0) (WorkerRegionId 0) ''Worker VPC'' ''10.0.0.0/16''
            (Attr (WorkerRegionId 0) ''TGW'' ''Ref'') [''Peering Connection''])
           [0..<azs ''us-east-1'']
     @ [gatewayRoute (WorkerRouteId 0) (WorkerRegionId 0) ''us-east-1'' ''10.0.0.0/16''
              (Attr (WorkerRegionId 0) ''Peering Connection'' ''TransitGatewayAttachmentId''),
        gatewayRoute (ClientRouteId 0) ClientRegionId ''eu-west-2'' ''10.1.0.0/16''
              (ParameterValue ''tgw-attachmentid-us-east-1'' ''us-east-1'')]
     @ map (subnetRoute (WorkerRegionId 1) (WorkerRegionId 1) ''Worker VPC'' ''10.0.0.0/16''
            (Attr (WorkerRegionId 1) ''TGW'' ''Ref'') [''Peering Connection''])
           [0..<azs ''us-west-2'']
     @ [gatewayRoute (WorkerRouteId 1) (WorkerRegionId 1) ''us-west-2'' ''10.0.0.0/16''
              (Attr (WorkerRegionId 1) ''Peering Connection'' ''TransitGatewayAttachmentId''),
        gatewayRoute (ClientRouteId 1) ClientRegionId ''eu-west-2'' ''10.2.0.0/16''
              (ParameterValue ''tgw-attachmentid-us-west-2'' ''us-west-2'')]
     @ map (subnetRoute (PeerId 0 1) (WorkerRegionId 0) ''Worker VPC'' ''10.2.0.0/16''
            (ParameterValue ''tgw-param-us-east-1'' ''us-east-1'') [''Peering Connection''])
           [0..<azs ''us-east-1'']
     @ [gatewayRoute (PeerRouteId 0 1) (WorkerRegionId 0) ''us-east-1'' ''10.2.0.0/16''
              (Attr (PeerId 0 1) ''Peering Connection'' ''TransitGatewayAttachmentId''),
        gatewayRoute (InterRouteId 1 0) (WorkerRegionId 1) ''us-west-2'' ''10.1.0.0/16''
              (ParameterValue ''tgw-attachmentid-us-east-1-us-west-2'' ''us-east-1'')]
     @ map (subnetRoute (InterRouteId 1 0) (WorkerRegionId 1) ''Worker VPC'' ''10.1.0.0/16''
            (Attr (WorkerRegionId 1) ''TGW'' ''Ref'') [])
           [0..<azs ''us-west-2'']"
proof -
  have n: "length workers = 2" by (simp add: workers_def)
  show ?thesis
    unfolding routes_def collect_app n
    by (simp add: workers_def client_def upt_2)
qed

lemma references_addDependency [simp]: "references (addDependency s t) = references s"
  by (simp add: references_def)

lemma references_stacks:
  "references (clientStack azs c ws) = []"
  "references (WorkerStacks azs c ws i) = []"
  "references (workerRoute azs c ws i) = [WorkerRegionId i, WorkerRegionId i]"
  "references (clientRoute azs c ws i) = [ClientRegionId]"
  "references (W2WTransitGateway azs ws x y) =
     map (\<lambda>k. WorkerRegionId x) [0..<azs (region (ws ! x))]"
  "references (WRTGWRoute azs ws x y) = [WorkerRegionId x, PeerId x y]"
  "references (interRoute azs ws x y) =
     WorkerRegionId y
     # concat (map (\<lambda>k. [WorkerRegionId y, WorkerRegionId y]) [0..<azs (region (ws ! y))])"
  "references (lustreToOS azs c ws x) = [WorkerRegionId x, WorkerRegionId x]"
  by (simp_all add: references_def pick_def stack_defs value_defs Let_def comp_def)

lemma set_needs:
  "set (needs (clientStack azs c ws)) = {}"
  "set (needs (WorkerStacks azs c ws i)) = {ClientRegionId}"
  "set (needs (workerRoute azs c ws i)) = {WorkerRegionId i}"
  "set (needs (clientRoute azs c ws i)) = {WorkerRegionId i, ClientRegionId}"
  "set (needs (W2WTransitGateway azs ws x y)) =
     (if azs (region (ws ! x)) = 0 then {} else {WorkerRegionId x})"
  "set (needs (WRTGWRoute azs ws x y)) = {PeerId x y, WorkerRegionId x}"
  "set (needs (interRoute azs ws x y)) = {PeerId x y, WorkerRegionId y}"
  "set (needs (lustreToOS azs c ws x)) = {WorkerRegionId x}"
  by (auto simp: needs_def references_stacks)

lemma valid_order_iff:
  "valid_order ss ord \<longleftrightarrow>
     distinct ord \<and> set ord = stackId ` set ss
     \<and> (\<forall>s\<in>set ss. \<forall>d\<in>set (needs s). precedes ord d (stackId s))"
  by (simp add: valid_order_def list_all_iff)

lemma valid_orderD:
  assumes "valid_order ss ord" "s \<in> set ss" "d \<in> set (needs s)"
  shows "precedes ord d (stackId s)"
  using assms by (simp add: valid_order_iff)

lemma precedes_in_set: "precedes ord a b \<Longrightarrow> a \<in> set ord \<and> b \<in> set ord"
  by (induction ord) (auto split: if_splits)

lemma precedes_neq: "distinct ord \<Longrightarrow> precedes ord a b \<Longrightarrow> a \<noteq> b"
  by (induction ord) (auto split: if_splits)

lemma precedes_asym: "distinct ord \<Longrightarrow> precedes ord a b \<Longrightarrow> \<not> precedes ord b a"
  by (induction ord) (auto split: if_splits dest: precedes_in_set)

lemma stackIds_app:
  "map stackId (app azs c ws) =
     ClientRegionId
     # concat (map (\<lambda>i. [WorkerRegionId i, WorkerRouteId i, ClientRouteId i]) [0..<length ws])
     @ concat (map (\<lambda>x. concat (map (\<lambda>y. [PeerId x y, PeerRouteId x y, InterRouteId y x])
           [Suc x..<length ws]) @ [SyncLustreId x]) [0..<length ws])"
  by (simp add: app_def workerLoop_def wiringLoop_def peerLoop_def map_concat comp_def)

lemma default_app:
  "app azs client workers =
     [clientStack azs client workers,
      WorkerStacks azs client workers 0, workerRoute azs client workers 0,
      clientRoute azs client workers 0,
      WorkerStacks azs client workers 1, workerRoute azs client workers 1,
      clientRoute azs client workers 1,
      W2WTransitGateway azs workers 0 1, WRTGWRoute azs workers 0 1, interRoute azs workers 0 1,
      lustreToOS azs client workers 0, lustreToOS azs client workers 1]"
proof -
  have n: "length workers = 2" by (simp add: workers_def)
  show ?thesis
    unfolding app_def wiringLoop_def n
    by (simp add: upt_2 workerLoop_def peerLoop_def)
qed


lemma valid_creationOrder: "valid_order (app (\<lambda>r. 2) client workers) creationOrder"
  unfolding valid_order_iff default_app
proof (intro conjI)
  show "distinct creationOrder"
    by (simp add: creationOrder_def)
  show "set creationOrder = stackId ` set [clientStack (\<lambda>r. 2) client workers,
      WorkerStacks (\<lambda>r. 2) client workers 0, workerRoute (\<lambda>r. 2) client workers 0,
      clientRoute (\<lambda>r. 2) client workers 0,
      WorkerStacks (\<lambda>r. 2) client workers 1, workerRoute (\<lambda>r. 2) client workers 1,
      clientRoute (\<lambda>r. 2) client workers 1,
      W2WTransitGateway (\<lambda>r. 2) workers 0 1, WRTGWRoute (\<lambda>r. 2) workers 0 1,
      interRoute (\<lambda>r. 2) workers 0 1,
      lustreToOS (\<lambda>r. 2) client workers 0, lustreToOS (\<lambda>r. 2) client workers 1]"
    by (auto simp: creationOrder_def)
  show "\<forall>s\<in>set [clientStack (\<lambda>r. 2) client workers,
      WorkerStacks (\<lambda>r. 2) client workers 0, workerRoute (\<lambda>r. 2) client workers 0,
      clientRoute (\<lambda>r. 2) client workers 0,
      WorkerStacks (\<lambda>r. 2) client workers 1, workerRoute (\<lambda>r. 2) client workers 1,
      clientRoute (\<lambda>r. 2) client workers 1,
      W2WTransitGateway (\<lambda>r. 2) workers 0 1, WRTGWRoute (\<lambda>r. 2) workers 0 1,
      interRoute (\<lambda>r. 2) workers 0 1,
      lustreToOS (\<lambda>r. 2) client workers 0, lustreToOS (\<lambda>r. 2) client workers 1].
      \<forall>d\<in>set (needs s). precedes creationOrder d (stackId s)"
    by (simp add: set_needs creationOrder_def)
qed

lemma default_links_list:
  "links (app azs client workers) =
     [clientLink client workers 0, clientLink client workers 1, workerLink workers 0 1]"
proof -
  have n: "length workers = 2" by (simp add: workers_def)
  show ?thesis unfolding links_app n by (simp add: upt_2)
qed


lemma gateway_route_after_accept:
  assumes v: "valid_order (app azs c ws) ord"
    and sr: "sr \<in> set (app azs c ws)" and r: "r \<in> set (stackRoutes sr)"
    and g: "level r = GatewayLevel"
  shows "\<exists>sl\<in>set (app azs c ws). \<exists>l\<in>set (stackLinks sl).
      stackId sl \<in> set (dependencies sr) \<and> precedes ord (stackId sl) (stackId sr)
      \<and> acceptedIn l = [target l]
      \<and> (via r = attachment l
          \<or> (\<exists>n rg. via r = ParameterValue n rg \<and> ((rg, n), attachment l) \<in> set (stackPublished sl)))"
  using sr
proof (cases rule: in_app_cases)
  case 1
  with r g show ?thesis by auto
next
  case (2 i)
  with r g show ?thesis by auto
next
  case (3 i)
  let ?sl = "WorkerStacks azs c ws i"
  have m: "?sl \<in> set (app azs c ws)" using 3(1) by (rule in_app(2))
  have "WorkerRegionId i \<in> set (needs sr)" using 3(2) by (simp add: set_needs)
  from valid_orderD [OF v sr this] have p: "precedes ord (stackId ?sl) (stackId sr)" by simp
  have "stackId ?sl \<in> set (dependencies sr) \<and> precedes ord (stackId ?sl) (stackId sr)
      \<and> acceptedIn (clientLink c ws i) = [target (clientLink c ws i)]
      \<and> (via r = attachment (clientLink c ws i)
          \<or> (\<exists>n rg. via r = ParameterValue n rg
                \<and> ((rg, n), attachment (clientLink c ws i)) \<in> set (stackPublished ?sl)))"
    using p r 3(2) by (simp add: clientLink_def)
  moreover have "clientLink c ws i \<in> set (stackLinks ?sl)" by simp
  ultimately show ?thesis using m by blast
next
  case (4 i)
  let ?sl = "WorkerStacks azs c ws i"
  have m: "?sl \<in> set (app azs c ws)" using 4(1) by (rule in_app(2))
  have "WorkerRegionId i \<in> set (needs sr)" using 4(2) by (simp add: set_needs)
  from valid_orderD [OF v sr this] have p: "precedes ord (stackId ?sl) (stackId sr)" by simp
  have "stackId ?sl \<in> set (dependencies sr) \<and> precedes ord (stackId ?sl) (stackId sr)
      \<and> acceptedIn (clientLink c ws i) = [target (clientLink c ws i)]
      \<and> (via r = attachment (clientLink c ws i)
          \<or> (\<exists>n rg. via r = ParameterValue n rg
                \<and> ((rg, n), attachment (clientLink c ws i)) \<in> set (stackPublished ?sl)))"
    using p r 4(2) by (simp add: clientLink_def)
  moreover have "clientLink c ws i \<in> set (stackLinks ?sl)" by simp
  ultimately show ?thesis using m by blast
next
  case (5 x y)
  with r g show ?thesis by auto
next
  case (6 x y)
  let ?sl = "W2WTransitGateway azs ws x y"
  have m: "?sl \<in> set (app azs c ws)" using 6(1,2) by (rule in_app(5))
  have "PeerId x y \<in> set (needs sr)" using 6(3) by (simp add: set_needs)
  from valid_orderD [OF v sr this] have p: "precedes ord (stackId ?sl) (stackId sr)" by simp
  have "stackId ?sl \<in> set (dependencies sr) \<and> precedes ord (stackId ?sl) (stackId sr)
      \<and> acceptedIn (workerLink ws x y) = [target (workerLink ws x y)]
      \<and> (via r = attachment (workerLink ws x y)
          \<or> (\<exists>n rg. via r = ParameterValue n rg
                \<and> ((rg, n), attachment (workerLink ws x y)) \<in> set (stackPublished ?sl)))"
    using p r 6(3) by (simp add: workerLink_def)
  moreover have "workerLink ws x y \<in> set (stackLinks ?sl)" by simp
  ultimately show ?thesis using m by blast
next
  case (7 x y)
  let ?sl = "W2WTransitGateway azs ws x y"
  have m: "?sl \<in> set (app azs c ws)" using 7(1,2) by (rule in_app(5))
  have "PeerId x y \<in> set (needs sr)" using 7(3) by (simp add: set_needs)
  from valid_orderD [OF v sr this] have p: "precedes ord (stackId ?sl) (stackId sr)" by simp
  from r g 7(3) have "r = gatewayRoute (InterRouteId y x) (WorkerRegionId y) (region (ws ! y))
      (cidr (ws ! x))
      (ParameterValue (''tgw-attachmentid-'' @ region (ws ! x) @ ''-'' @ region (ws ! y))
         (region (ws ! x)))"
    by auto
  then have "stackId ?sl \<in> set (dependencies sr) \<and> precedes ord (stackId ?sl) (stackId sr)
      \<and> acceptedIn (workerLink ws x y) = [target (workerLink ws x y)]
      \<and> (via r = attachment (workerLink ws x y)
          \<or> (\<exists>n rg. via r = ParameterValue n rg
                \<and> ((rg, n), attachment (workerLink ws x y)) \<in> set (stackPublished ?sl)))"
    using p 7(3) by (simp add: workerLink_def)
  moreover have "workerLink ws x y \<in> set (stackLinks ?sl)" by simp
  ultimately show ?thesis using m by blast
next
  case (8 x)
  with r show ?thesis by simp
qed

section \<open>The claims\<close>

subsection \<open>C1: bootstrap before the link\<close>




subsection \<open>C2: routes after the accepted handshake\<close>

text \<open>
  C2, as stated, fails for subnet-level route entries. The client stack declares the
  subnet-level entries toward every worker's block; the attachment between us-east-1 and
  the client is created and accepted in the worker stack of us-east-1, which depends on
  the client stack, so the client's entry toward 10.1.0.0/16 is deployed before that
  handshake exists.
\<close>

theorem C2_counterexample:
  "valid_order (app (\<lambda>r. 2) client workers) creationOrder
   \<and> \<not> routes_after_accept (descriptors client workers) (app (\<lambda>r. 2) client workers) creationOrder
   \<and> subnetRoute ClientRegionId ClientRegionId ''Scheduler VPC'' ''10.1.0.0/16''
         (Attr ClientRegionId ''TGW'' ''Ref'') [''tgw-attachment''] 0
       \<in> set (stackRoutes (clientStack (\<lambda>r. 2) client workers))
   \<and> map (\<lambda>l. (linkStack l, acceptedIn l))
        (filter (\<lambda>l. endpoints l = {''eu-west-2'', ''us-east-1''})
          (links (app (\<lambda>r. 2) client workers))) = [(WorkerRegionId 0, [''eu-west-2''])]
   \<and> precedes creationOrder ClientRegionId (WorkerRegionId 0)"
proof (intro conjI)
  let ?A = "app (\<lambda>r. 2) client workers"
  let ?r = "subnetRoute ClientRegionId ClientRegionId ''Scheduler VPC'' ''10.1.0.0/16''
         (Attr ClientRegionId ''TGW'' ''Ref'') [''tgw-attachment''] 0"
  show "valid_order ?A creationOrder"
    by (rule valid_creationOrder)
  show r: "?r \<in> set (stackRoutes (clientStack (\<lambda>r. 2) client workers))"
    by (simp add: workers_def upt_2)
  show "\<not> routes_after_accept (descriptors client workers) ?A creationOrder"
  proof
    assume "routes_after_accept (descriptors client workers) ?A creationOrder"
    then have all: "\<forall>s\<in>set ?A. \<forall>r\<in>set (stackRoutes s). \<forall>l\<in>set (links ?A).
        \<not> concerns (descriptors client workers) (env_region s) r l \<or> linkStack l = stackId s
        \<or> precedes creationOrder (linkStack l) (stackId s)"
      by (simp add: routes_after_accept_def list_all_iff)
    have l: "clientLink client workers 0 \<in> set (links ?A)"
      unfolding default_links_list by simp
    from bspec [OF bspec [OF bspec [OF all in_app(1)] r] l]
    have "\<not> concerns (descriptors client workers)
          (env_region (clientStack (\<lambda>r. 2) client workers)) ?r (clientLink client workers 0)
        \<or> linkStack (clientLink client workers 0) = stackId (clientStack (\<lambda>r. 2) client workers)
        \<or> precedes creationOrder (linkStack (clientLink client workers 0))
             (stackId (clientStack (\<lambda>r. 2) client workers))" .
    moreover have "concerns (descriptors client workers)
          (env_region (clientStack (\<lambda>r. 2) client workers)) ?r (clientLink client workers 0)"
      by (simp add: concerns_def descriptors_def endpoints_def clientLink_def client_def
          workers_def doubleton_eq_iff)
    ultimately show False
      by (simp add: clientLink_def creationOrder_def)
  qed
  show "map (\<lambda>l. (linkStack l, acceptedIn l))
        (filter (\<lambda>l. endpoints l = {''eu-west-2'', ''us-east-1''}) (links ?A))
      = [(WorkerRegionId 0, [''eu-west-2''])]"
    unfolding default_links_list
    by (simp add: endpoints_def clientLink_def workerLink_def client_def workers_def
        doubleton_eq_iff)
  show "precedes creationOrder ClientRegionId (WorkerRegionId 0)"
    by (simp add: creationOrder_def)
qed

text \<open>
  C2, amended. In every deployment order, every gateway-level route entry is declared in a
  stack that has a declared dependency on, and is deployed after, the stack that creates the
  attachment the entry goes through and declares its accept action (the entry names the
  attachment directly or reads the identifier that stack published); so are the entries of
  the inverse-route stack of a worker-to-worker pair. The other subnet-level entries are
  not ordered after the accept: the client's wait only for the client's own network
  attachment, in the client stack, which is deployed before every worker stack; those of a
  worker stack and of a link stack wait only for the creation of the peering attachment of
  their stack.
\<close>

theorem C2_gateway_routes_after_accept:
  assumes "valid_order (app azs c ws) ord"
  shows "(\<forall>sr\<in>set (app azs c ws). \<forall>r\<in>set (stackRoutes sr). level r = GatewayLevel \<longrightarrow>
            (\<exists>sl\<in>set (app azs c ws). \<exists>l\<in>set (stackLinks sl).
               stackId sl \<in> set (dependencies sr) \<and> precedes ord (stackId sl) (stackId sr)
               \<and> acceptedIn l = [target l]
               \<and> (via r = attachment l
                   \<or> (\<exists>n rg. via r = ParameterValue n rg
                         \<and> ((rg, n), attachment l) \<in> set (stackPublished sl)))))
     \<and> (\<forall>x y. x < y \<and> y < length ws \<longrightarrow>
            PeerId x y \<in> set (dependencies (interRoute azs ws x y))
            \<and> precedes ord (stackId (W2WTransitGateway azs ws x y)) (stackId (interRoute azs ws x y)))
     \<and> (\<forall>r\<in>set (stackRoutes (clientStack azs c ws)).
            level r = SubnetLevel \<and> waitsFor r = [''tgw-attachment''])
     \<and> (\<forall>i. i < length ws \<longrightarrow>
            precedes ord (stackId (clientStack azs c ws)) (stackId (WorkerStacks azs c ws i)))
     \<and> (\<forall>i. \<forall>r\<in>set (stackRoutes (WorkerStacks azs c ws i)).
            level r = SubnetLevel \<and> waitsFor r = [''Peering Connection''])
     \<and> (\<forall>x y. \<forall>r\<in>set (stackRoutes (W2WTransitGateway azs ws x y)).
            level r = SubnetLevel \<and> waitsFor r = [''Peering Connection''])"
proof (intro conjI allI impI ballI)
  fix sr r assume "sr \<in> set (app azs c ws)" "r \<in> set (stackRoutes sr)" "level r = GatewayLevel"
  with assms show "\<exists>sl\<in>set (app azs c ws). \<exists>l\<in>set (stackLinks sl).
               stackId sl \<in> set (dependencies sr) \<and> precedes ord (stackId sl) (stackId sr)
               \<and> acceptedIn l = [target l]
               \<and> (via r = attachment l
                   \<or> (\<exists>n rg. via r = ParameterValue n rg
                         \<and> ((rg, n), attachment l) \<in> set (stackPublished sl)))"
    by (rule gateway_route_after_accept)
next
  fix x y assume xy: "x < y \<and> y < length ws"
  show "PeerId x y \<in> set (dependencies (interRoute azs ws x y))"
    by simp
  have m: "interRoute azs ws x y \<in> set (app azs c ws)"
    using xy in_app(7) by simp
  have "PeerId x y \<in> set (needs (interRoute azs ws x y))"
    by (simp add: set_needs)
  from valid_orderD [OF assms m this]
  show "precedes ord (stackId (W2WTransitGateway azs ws x y)) (stackId (interRoute azs ws x y))"
    by simp
next
  fix r assume "r \<in> set (stackRoutes (clientStack azs c ws))"
  then show "level r = SubnetLevel" "waitsFor r = [''tgw-attachment'']"
    by auto
next
  fix i assume i: "i < length ws"
  have "ClientRegionId \<in> set (needs (WorkerStacks azs c ws i))"
    by (simp add: set_needs)
  from valid_orderD [OF assms in_app(2) [OF i] this]
  show "precedes ord (stackId (clientStack azs c ws)) (stackId (WorkerStacks azs c ws i))"
    by simp
next
  fix i r assume "r \<in> set (stackRoutes (WorkerStacks azs c ws i))"
  then show "level r = SubnetLevel" "waitsFor r = [''Peering Connection'']"
    by auto
next
  fix x y r assume "r \<in> set (stackRoutes (W2WTransitGateway azs ws x y))"
  then show "level r = SubnetLevel" "waitsFor r = [''Peering Connection'']"
    by auto
qed

theorem C2_gateway_routes_after_accept_witness:
  "valid_order (app (\<lambda>r. 2) client workers) creationOrder
   \<and> clientRoute (\<lambda>r. 2) client workers 0 \<in> set (app (\<lambda>r. 2) client workers)
   \<and> gatewayRoute (ClientRouteId 0) ClientRegionId ''eu-west-2'' ''10.1.0.0/16''
        (ParameterValue ''tgw-attachmentid-us-east-1'' ''us-east-1'')
       \<in> set (stackRoutes (clientRoute (\<lambda>r. 2) client workers 0))
   \<and> (\<exists>sl\<in>set (app (\<lambda>r. 2) client workers). \<exists>l\<in>set (stackLinks sl).
         stackId sl \<in> set (dependencies (clientRoute (\<lambda>r. 2) client workers 0))
         \<and> precedes creationOrder (stackId sl) (ClientRouteId 0)
         \<and> acceptedIn l = [target l]
         \<and> ((''us-east-1'', ''tgw-attachmentid-us-east-1''), attachment l)
              \<in> set (stackPublished sl))"
proof -
  let ?A = "app (\<lambda>r. 2) client workers"
  let ?sr = "clientRoute (\<lambda>r. 2) client workers 0"
  let ?r = "gatewayRoute (ClientRouteId 0) ClientRegionId ''eu-west-2'' ''10.1.0.0/16''
        (ParameterValue ''tgw-attachmentid-us-east-1'' ''us-east-1'')"
  note t = C2_gateway_routes_after_accept [OF valid_creationOrder]
  have n: "(0::nat) < length workers" by (simp add: workers_def)
  have sr: "?sr \<in> set ?A" using n by (rule in_app(4))
  have r: "?r \<in> set (stackRoutes ?sr)"
    by (simp add: workers_def client_def)
  have g: "level ?r = GatewayLevel" by simp
  from t have "\<forall>sr\<in>set ?A. \<forall>r\<in>set (stackRoutes sr). level r = GatewayLevel \<longrightarrow>
            (\<exists>sl\<in>set ?A. \<exists>l\<in>set (stackLinks sl).
               stackId sl \<in> set (dependencies sr) \<and> precedes creationOrder (stackId sl) (stackId sr)
               \<and> acceptedIn l = [target l]
               \<and> (via r = attachment l
                   \<or> (\<exists>n rg. via r = ParameterValue n rg
                         \<and> ((rg, n), attachment l) \<in> set (stackPublished sl))))"
    by (rule conjunct1)
  from mp [OF bspec [OF bspec [OF this sr] r] g]
  obtain sl l where sl: "sl \<in> set ?A" and l: "l \<in> set (stackLinks sl)"
    and d: "stackId sl \<in> set (dependencies ?sr)"
    and p: "precedes creationOrder (stackId sl) (stackId ?sr)"
    and a: "acceptedIn l = [target l]"
    and v: "via ?r = attachment l
        \<or> (\<exists>n rg. via ?r = ParameterValue n rg \<and> ((rg, n), attachment l) \<in> set (stackPublished sl))"
    by blast
  have "\<exists>s n a. attachment l = Attr s n a"
    using sl by (cases rule: in_app_cases) (use l in \<open>auto simp: clientLink_def workerLink_def\<close>)
  with v have "((''us-east-1'', ''tgw-attachmentid-us-east-1''), attachment l) \<in> set (stackPublished sl)"
    by auto
  with sl l d p a have "\<exists>sl\<in>set ?A. \<exists>l\<in>set (stackLinks sl).
         stackId sl \<in> set (dependencies ?sr)
         \<and> precedes creationOrder (stackId sl) (ClientRouteId 0)
         \<and> acceptedIn l = [target l]
         \<and> ((''us-east-1'', ''tgw-attachmentid-us-east-1''), attachment l)
              \<in> set (stackPublished sl)"
    by auto
  with valid_creationOrder sr r show ?thesis
    by (intro conjI)
qed

subsection \<open>C3: one peering attachment per unordered pair of regions\<close>



subsection \<open>C4: who initiates each peering attachment\<close>

text \<open>
  C4. The peering attachments of the application are, in order: for each worker \<open>i\<close>, one
  created in the worker's region, pointing at the gateway published for the client's
  region, with its accept action executed in the client's region; and for each pair of
  workers \<open>x < y\<close>, one created in the region of \<open>x\<close>, pointing at the gateway published for
  the region of \<open>y\<close>, with its accept action executed in the region of \<open>y\<close>. With pairwise
  distinct regions, the published gateway references they read are those of the client's
  gateway and of the gateways of workers \<open>y\<close> and \<open>x\<close>.
\<close>

theorem C4_initiator_assignment:
  "links (app azs c ws) =
     map (clientLink c ws) [0..<length ws]
     @ concat (map (\<lambda>x. map (workerLink ws x) [Suc x..<length ws]) [0..<length ws])
   \<and> (distinct (participants c ws) \<longrightarrow>
        (\<forall>i. i < length ws \<longrightarrow>
           resolve (published (app azs c ws)) (targetGateway (clientLink c ws i))
             = Attr ClientRegionId ''TGW'' ''Ref'')
        \<and> (\<forall>x y. x < y \<and> y < length ws \<longrightarrow>
           resolve (published (app azs c ws)) (targetGateway (workerLink ws x y))
             = Attr (WorkerRegionId y) ''TGW'' ''Ref''
           \<and> resolve (published (app azs c ws)) (localGateway (workerLink ws x y))
             = Attr (WorkerRegionId x) ''TGW'' ''Ref''))"
proof (intro conjI impI allI)
  show "links (app azs c ws) =
     map (clientLink c ws) [0..<length ws]
     @ concat (map (\<lambda>x. map (workerLink ws x) [Suc x..<length ws]) [0..<length ws])"
    by (rule links_app)
next
  fix i assume "distinct (participants c ws)" "i < length ws"
  then show "resolve (published (app azs c ws)) (targetGateway (clientLink c ws i))
             = Attr ClientRegionId ''TGW'' ''Ref''"
    using resolve_client_gateway [of c ws azs] by (simp add: clientLink_def)
next
  fix x y assume d: "distinct (participants c ws)" and xy: "x < y \<and> y < length ws"
  then show "resolve (published (app azs c ws)) (targetGateway (workerLink ws x y))
             = Attr (WorkerRegionId y) ''TGW'' ''Ref''"
    using resolve_worker_gateway [of c ws y azs] by (simp add: workerLink_def)
  from xy have "x < length ws" by simp
  with d show "resolve (published (app azs c ws)) (localGateway (workerLink ws x y))
             = Attr (WorkerRegionId x) ''TGW'' ''Ref''"
    using resolve_worker_gateway [of c ws x azs] by (simp add: workerLink_def)
qed

theorem C4_initiator_assignment_witness:
  "distinct (participants client workers)
   \<and> (0::nat) < 1 \<and> 1 < length workers
   \<and> resolve (published (app (\<lambda>r. 2) client workers)) (targetGateway (clientLink client workers 0))
       = Attr ClientRegionId ''TGW'' ''Ref''
   \<and> resolve (published (app (\<lambda>r. 2) client workers)) (targetGateway (workerLink workers 0 1))
       = Attr (WorkerRegionId 1) ''TGW'' ''Ref''
   \<and> map (\<lambda>l. (initiator l, target l, acceptedIn l)) (links (app (\<lambda>r. 2) client workers)) =
       [(''us-east-1'', ''eu-west-2'', [''eu-west-2'']),
        (''us-west-2'', ''eu-west-2'', [''eu-west-2'']),
        (''us-east-1'', ''us-west-2'', [''us-west-2''])]"
proof -
  have d: "distinct (participants client workers)"
    by (rule default_participants)
  have n: "(0::nat) < 1" "1 < length workers" "0 < length workers"
    by (simp_all add: workers_def)
  note t = C4_initiator_assignment [of "\<lambda>r. 2" client workers]
  from t have l: "links (app (\<lambda>r. 2) client workers) =
     map (clientLink client workers) [0..<length workers]
     @ concat (map (\<lambda>x. map (workerLink workers x) [Suc x..<length workers]) [0..<length workers])"
    by (rule conjunct1)
  from t d have r: "(\<forall>i. i < length workers \<longrightarrow>
           resolve (published (app (\<lambda>r. 2) client workers)) (targetGateway (clientLink client workers i))
             = Attr ClientRegionId ''TGW'' ''Ref'')
        \<and> (\<forall>x y. x < y \<and> y < length workers \<longrightarrow>
           resolve (published (app (\<lambda>r. 2) client workers)) (targetGateway (workerLink workers x y))
             = Attr (WorkerRegionId y) ''TGW'' ''Ref''
           \<and> resolve (published (app (\<lambda>r. 2) client workers)) (localGateway (workerLink workers x y))
             = Attr (WorkerRegionId x) ''TGW'' ''Ref'')"
    by (rule mp [OF conjunct2])
  from r n(3) have a: "resolve (published (app (\<lambda>r. 2) client workers))
      (targetGateway (clientLink client workers 0)) = Attr ClientRegionId ''TGW'' ''Ref''"
    by blast
  from r n(1,2) have b: "resolve (published (app (\<lambda>r. 2) client workers))
      (targetGateway (workerLink workers 0 1)) = Attr (WorkerRegionId 1) ''TGW'' ''Ref''"
    by blast
  have e: "map (\<lambda>l. (initiator l, target l, acceptedIn l)) (links (app (\<lambda>r. 2) client workers)) =
       [(''us-east-1'', ''eu-west-2'', [''eu-west-2'']),
        (''us-west-2'', ''eu-west-2'', [''eu-west-2'']),
        (''us-east-1'', ''us-west-2'', [''us-west-2''])]"
    unfolding l by (simp add: workers_def client_def clientLink_def workerLink_def)
  from d n(1,2) a b e show ?thesis
    by (intro conjI)
qed

subsection \<open>C6: at most one route entry per route table and destination\<close>

text \<open>
  C6. For any configuration with pairwise distinct CIDR blocks, the route entries of the
  whole application (the subnet-level entries of every private subnet's route table and
  the gateway-level entries of every gateway's default route table) have pairwise distinct
  (route table, destination block) pairs. The region identifiers play no part in it: a
  route table belongs to the network or gateway of one stack.
\<close>

theorem C6_one_route_per_table_and_block:
  assumes "distinct (blocks c ws)"
  shows "distinct (map routeKey (routes (app azs c ws)))"
  using assms by (rule distinct_route_keys)

theorem C6_one_route_per_table_and_block_witness:
  "distinct (blocks client workers)
   \<and> distinct (map routeKey (routes (app (\<lambda>r. 2) client workers)))"
proof -
  have d: "distinct (blocks client workers)"
    by (simp add: blocks_def client_def workers_def)
  from d C6_one_route_per_table_and_block [OF d, of "\<lambda>r. 2"] show ?thesis
    by (intro conjI)
qed

subsection \<open>C8: the shipped configuration\<close>

text \<open>
  C8. With the client in 10.0.0.0/16 and workers A (us-east-1, 10.1.0.0/16) and B
  (us-west-2, 10.2.0.0/16) there are exactly 3 peering attachments (A to the client, B to
  the client, A to B) and exactly 6 gateway-level route entries: for each attachment one
  in the default route table of the gateway on each side, whose destination is the peer's
  block and whose target, once the published attachment identifiers are read, is that
  pair's attachment. The subnet-level entries are one per private subnet on each side of
  each pair, toward the peer's block.
\<close>

theorem C8_default_scenario:
  "map (\<lambda>l. (initiator l, target l, attachment l)) (links (app azs client workers)) =
     [(''us-east-1'', ''eu-west-2'',
         Attr (WorkerRegionId 0) ''Peering Connection'' ''TransitGatewayAttachmentId''),
      (''us-west-2'', ''eu-west-2'',
         Attr (WorkerRegionId 1) ''Peering Connection'' ''TransitGatewayAttachmentId''),
      (''us-east-1'', ''us-west-2'',
         Attr (PeerId 0 1) ''Peering Connection'' ''TransitGatewayAttachmentId'')]
   \<and> map (\<lambda>r. (routeTable r, destination r, resolve (published (app azs client workers)) (via r)))
       (filter (\<lambda>r. level r = GatewayLevel) (routes (app azs client workers))) =
     [(AssociationDefaultRouteTableId (Attr (WorkerRegionId 0) ''TGW'' ''Ref'') ''us-east-1'',
         ''10.0.0.0/16'',
         Attr (WorkerRegionId 0) ''Peering Connection'' ''TransitGatewayAttachmentId''),
      (AssociationDefaultRouteTableId (Attr ClientRegionId ''TGW'' ''Ref'') ''eu-west-2'',
         ''10.1.0.0/16'',
         Attr (WorkerRegionId 0) ''Peering Connection'' ''TransitGatewayAttachmentId''),
      (AssociationDefaultRouteTableId (Attr (WorkerRegionId 1) ''TGW'' ''Ref'') ''us-west-2'',
         ''10.0.0.0/16'',
         Attr (WorkerRegionId 1) ''Peering Connection'' ''TransitGatewayAttachmentId''),
      (AssociationDefaultRouteTableId (Attr ClientRegionId ''TGW'' ''Ref'') ''eu-west-2'',
         ''10.2.0.0/16'',
         Attr (WorkerRegionId 1) ''Peering Connection'' ''TransitGatewayAttachmentId''),
      (AssociationDefaultRouteTableId (Attr (WorkerRegionId 0) ''TGW'' ''Ref'') ''us-east-1'',
         ''10.2.0.0/16'',
         Attr (PeerId 0 1) ''Peering Connection'' ''TransitGatewayAttachmentId''),
      (AssociationDefaultRouteTableId (Attr (WorkerRegionId 1) ''TGW'' ''Ref'') ''us-west-2'',
         ''10.1.0.0/16'',
         Attr (PeerId 0 1) ''Peering Connection'' ''TransitGatewayAttachmentId'')]
   \<and> length (filter (\<lambda>r. level r = GatewayLevel) (routes (app azs client workers))) = 6
   \<and> map (\<lambda>r. (routeTable r, destination r))
       (filter (\<lambda>r. level r = SubnetLevel) (routes (app azs client workers))) =
     map (\<lambda>k. (SubnetRouteTableId ClientRegionId ''Scheduler VPC'' k, ''10.1.0.0/16''))
       [0..<azs ''eu-west-2'']
     @ map (\<lambda>k. (SubnetRouteTableId ClientRegionId ''Scheduler VPC'' k, ''10.2.0.0/16''))
       [0..<azs ''eu-west-2'']
     @ map (\<lambda>k. (SubnetRouteTableId (WorkerRegionId 0) ''Worker VPC'' k, ''10.0.0.0/16''))
       [0..<azs ''us-east-1'']
     @ map (\<lambda>k. (SubnetRouteTableId (WorkerRegionId 1) ''Worker VPC'' k, ''10.0.0.0/16''))
       [0..<azs ''us-west-2'']
     @ map (\<lambda>k. (SubnetRouteTableId (WorkerRegionId 0) ''Worker VPC'' k, ''10.2.0.0/16''))
       [0..<azs ''us-east-1'']
     @ map (\<lambda>k. (SubnetRouteTableId (WorkerRegionId 1) ''Worker VPC'' k, ''10.1.0.0/16''))
       [0..<azs ''us-west-2'']"
proof (intro conjI)
  have n: "length workers = 2" by (simp add: workers_def)
  show "map (\<lambda>l. (initiator l, target l, attachment l)) (links (app azs client workers)) =
     [(''us-east-1'', ''eu-west-2'',
         Attr (WorkerRegionId 0) ''Peering Connection'' ''TransitGatewayAttachmentId''),
      (''us-west-2'', ''eu-west-2'',
         Attr (WorkerRegionId 1) ''Peering Connection'' ''TransitGatewayAttachmentId''),
      (''us-east-1'', ''us-west-2'',
         Attr (PeerId 0 1) ''Peering Connection'' ''TransitGatewayAttachmentId'')]"
    unfolding links_app n
    by (simp add: upt_2 clientLink_def workerLink_def workers_def client_def)
  show "map (\<lambda>r. (routeTable r, destination r, resolve (published (app azs client workers)) (via r)))
       (filter (\<lambda>r. level r = GatewayLevel) (routes (app azs client workers))) =
     [(AssociationDefaultRouteTableId (Attr (WorkerRegionId 0) ''TGW'' ''Ref'') ''us-east-1'',
         ''10.0.0.0/16'',
         Attr (WorkerRegionId 0) ''Peering Connection'' ''TransitGatewayAttachmentId''),
      (AssociationDefaultRouteTableId (Attr ClientRegionId ''TGW'' ''Ref'') ''eu-west-2'',
         ''10.1.0.0/16'',
         Attr (WorkerRegionId 0) ''Peering Connection'' ''TransitGatewayAttachmentId''),
      (AssociationDefaultRouteTableId (Attr (WorkerRegionId 1) ''TGW'' ''Ref'') ''us-west-2'',
         ''10.0.0.0/16'',
         Attr (WorkerRegionId 1) ''Peering Connection'' ''TransitGatewayAttachmentId''),
      (AssociationDefaultRouteTableId (Attr ClientRegionId ''TGW'' ''Ref'') ''eu-west-2'',
         ''10.2.0.0/16'',
         Attr (WorkerRegionId 1) ''Peering Connection'' ''TransitGatewayAttachmentId''),
      (AssociationDefaultRouteTableId (Attr (WorkerRegionId 0) ''TGW'' ''Ref'') ''us-east-1'',
         ''10.2.0.0/16'',
         Attr (PeerId 0 1) ''Peering Connection'' ''TransitGatewayAttachmentId''),
      (AssociationDefaultRouteTableId (Attr (WorkerRegionId 1) ''TGW'' ''Ref'') ''us-west-2'',
         ''10.1.0.0/16'',
         Attr (PeerId 0 1) ''Peering Connection'' ''TransitGatewayAttachmentId'')]"
    unfolding default_routes default_published
    by (simp add: filter_map comp_def)
  show "length (filter (\<lambda>r. level r = GatewayLevel) (routes (app azs client workers))) = 6"
    unfolding default_routes
    by (simp add: filter_map comp_def)
  show "map (\<lambda>r. (routeTable r, destination r))
       (filter (\<lambda>r. level r = SubnetLevel) (routes (app azs client workers))) =
     map (\<lambda>k. (SubnetRouteTableId ClientRegionId ''Scheduler VPC'' k, ''10.1.0.0/16''))
       [0..<azs ''eu-west-2'']
     @ map (\<lambda>k. (SubnetRouteTableId ClientRegionId ''Scheduler VPC'' k, ''10.2.0.0/16''))
       [0..<azs ''eu-west-2'']
     @ map (\<lambda>k. (SubnetRouteTableId (WorkerRegionId 0) ''Worker VPC'' k, ''10.0.0.0/16''))
       [0..<azs ''us-east-1'']
     @ map (\<lambda>k. (SubnetRouteTableId (WorkerRegionId 1) ''Worker VPC'' k, ''10.0.0.0/16''))
       [0..<azs ''us-west-2'']
     @ map (\<lambda>k. (SubnetRouteTableId (WorkerRegionId 0) ''Worker VPC'' k, ''10.2.0.0/16''))
       [0..<azs ''us-east-1'']
     @ map (\<lambda>k. (SubnetRouteTableId (WorkerRegionId 1) ''Worker VPC'' k, ''10.1.0.0/16''))
       [0..<azs ''us-west-2'']"
    unfolding default_routes
    by (simp add: filter_map comp_def)
qed

subsection \<open>C9: one gateway per participating region\<close>



subsection \<open>C10: the keys of the parameter exchange\<close>

text \<open>
  C10, as stated, fails: the names alone can collide although the region identifiers are
  pairwise distinct. With workers in the regions \<open>us\<close>, \<open>east-1\<close> and \<open>us-east-1\<close>, the
  worker stack of \<open>us-east-1\<close> publishes its client-link attachment under
  \<open>tgw-attachmentid-us-east-1\<close>, and the link stack from \<open>us\<close> to \<open>east-1\<close> publishes its
  attachment under the same name (in region \<open>us\<close>).
\<close>

theorem C10_counterexample:
  "distinct (participants client splitWorkers)
   \<and> ((''us-east-1'', ''tgw-attachmentid-us-east-1''),
        Attr (WorkerRegionId 2) ''Peering Connection'' ''TransitGatewayAttachmentId'')
       \<in> set (published (app (\<lambda>r. 2) client splitWorkers))
   \<and> ((''us'', ''tgw-attachmentid-us-east-1''),
        Attr (PeerId 0 1) ''Peering Connection'' ''TransitGatewayAttachmentId'')
       \<in> set (published (app (\<lambda>r. 2) client splitWorkers))
   \<and> \<not> distinct (map (\<lambda>p. snd (fst p)) (published (app (\<lambda>r. 2) client splitWorkers)))"
proof (intro conjI)
  show "distinct (participants client splitWorkers)"
    by (simp add: participants_def client_def splitWorkers_def)
  have n: "length splitWorkers = 3"
    by (simp add: splitWorkers_def)
  have w: "2 < length splitWorkers" "(0::nat) < 1" "1 < length splitWorkers"
    using n by simp_all
  have "((region (splitWorkers ! 2), ''tgw-attachmentid-'' @ region (splitWorkers ! 2)),
        Attr (WorkerRegionId 2) ''Peering Connection'' ''TransitGatewayAttachmentId'')
       \<in> set (published (app (\<lambda>r. 2) client splitWorkers))"
    unfolding published_def by (rule in_collect [OF in_app(2) [OF w(1)]]) simp
  then show "((''us-east-1'', ''tgw-attachmentid-us-east-1''),
        Attr (WorkerRegionId 2) ''Peering Connection'' ''TransitGatewayAttachmentId'')
       \<in> set (published (app (\<lambda>r. 2) client splitWorkers))"
    by (simp add: splitWorkers_def)
  have "((region (splitWorkers ! 0),
          ''tgw-attachmentid-'' @ region (splitWorkers ! 0) @ ''-'' @ region (splitWorkers ! 1)),
        Attr (PeerId 0 1) ''Peering Connection'' ''TransitGatewayAttachmentId'')
       \<in> set (published (app (\<lambda>r. 2) client splitWorkers))"
    unfolding published_def by (rule in_collect [OF in_app(5) [OF w(2,3)]]) simp
  then show "((''us'', ''tgw-attachmentid-us-east-1''),
        Attr (PeerId 0 1) ''Peering Connection'' ''TransitGatewayAttachmentId'')
       \<in> set (published (app (\<lambda>r. 2) client splitWorkers))"
    by (simp add: splitWorkers_def)
  have "map (\<lambda>p. snd (fst p)) (published (app (\<lambda>r. 2) client splitWorkers))
      = map snd (map fst (published (app (\<lambda>r. 2) client splitWorkers)))"
    by simp
  also have "\<dots> = map snd (clientKeys client @ concat (map (workerKeys splitWorkers) [0, 1, 2])
     @ concat (map (wiringKeys splitWorkers) [0, 1, 2]))"
    unfolding published_keys_app n upt_3 ..
  finally show "\<not> distinct (map (\<lambda>p. snd (fst p)) (published (app (\<lambda>r. 2) client splitWorkers)))"
    by (simp add: clientKeys_def workerKeys_def wiringKeys_def splitWorkers_def client_def upt_3)
qed

text \<open>
  C10, amended. Provided the region identifiers are pairwise distinct, no two published
  parameters have the same owning region and name: every parameter is stored under a
  (region, name) pair of its own, so no publish overwrites the value of another, and a
  fetch of a published (region, name) gives the value published under it.
\<close>

theorem C10_published_keys_distinct:
  assumes "distinct (participants c ws)"
  shows "distinct (map fst (published (app azs c ws)))
     \<and> (\<forall>p\<in>set (published (app azs c ws)).
          map_of (published (app azs c ws)) (fst p) = Some (snd p))"
proof
  show d: "distinct (map fst (published (app azs c ws)))"
    using assms by (rule distinct_published_keys)
  show "\<forall>p\<in>set (published (app azs c ws)).
          map_of (published (app azs c ws)) (fst p) = Some (snd p)"
  proof
    fix p assume "p \<in> set (published (app azs c ws))"
    then have "(fst p, snd p) \<in> set (published (app azs c ws))" by simp
    with d show "map_of (published (app azs c ws)) (fst p) = Some (snd p)"
      by (rule map_of_is_SomeI)
  qed
qed

theorem C10_published_keys_distinct_witness:
  "distinct (participants client workers)
   \<and> distinct (map fst (published (app (\<lambda>r. 2) client workers)))
   \<and> map_of (published (app (\<lambda>r. 2) client workers))
        (''us-east-1'', ''tgw-attachmentid-us-east-1-us-west-2'')
      = Some (Attr (PeerId 0 1) ''Peering Connection'' ''TransitGatewayAttachmentId'')"
proof -
  have d: "distinct (participants client workers)"
    by (rule default_participants)
  note t = C10_published_keys_distinct [OF d, of "\<lambda>r. 2"]
  have w: "(0::nat) < 1" "1 < length workers"
    by (simp_all add: workers_def)
  have "((region (workers ! 0),
          ''tgw-attachmentid-'' @ region (workers ! 0) @ ''-'' @ region (workers ! 1)),
        Attr (PeerId 0 1) ''Peering Connection'' ''TransitGatewayAttachmentId'')
       \<in> set (published (app (\<lambda>r. 2) client workers))"
    unfolding published_def by (rule in_collect [OF in_app(5) [OF w]]) simp
  then have m: "((''us-east-1'', ''tgw-attachmentid-us-east-1-us-west-2''),
        Attr (PeerId 0 1) ''Peering Connection'' ''TransitGatewayAttachmentId'')
       \<in> set (published (app (\<lambda>r. 2) client workers))"
    by (simp add: workers_def)
  from t have "\<forall>p\<in>set (published (app (\<lambda>r. 2) client workers)).
          map_of (published (app (\<lambda>r. 2) client workers)) (fst p) = Some (snd p)"
    by (rule conjunct2)
  from bspec [OF this m] have "map_of (published (app (\<lambda>r. 2) client workers))
        (''us-east-1'', ''tgw-attachmentid-us-east-1-us-west-2'')
      = Some (Attr (PeerId 0 1) ''Peering Connection'' ''TransitGatewayAttachmentId'')"
    by simp
  moreover from t have "distinct (map fst (published (app (\<lambda>r. 2) client workers)))"
    by (rule conjunct1)
  ultimately show ?thesis using d by (intro conjI)
qed

end
